theory Spec2Isabelle
  imports Complex_Main "HOL-Library.Multiset" "HOL-Library.Log_Nat"
begin

section \<open>Opal: the Privacy Metrics Engine and the session aggregator\<close>

text \<open>
  The development embeds \<^verbatim>\<open>opal-ui/src/services/privacyMetricsEngine.js\<close> (class
  \<^verbatim>\<open>PrivacyMetricsEngine\<close>) and the function \<^verbatim>\<open>calculateAggregatedMetrics\<close> of the
  \<^verbatim>\<open>PrivacyMetricsPanel\<close> component.

  The scores the engine handles are integers (table constants, \<^verbatim>\<open>Math.round\<close> results,
  \<^verbatim>\<open>getRandomNumber\<close> draws), far below \<open>2 ^ 53\<close>, so their sums are exact. A quotient
  that is only rounded by \<^verbatim>\<open>Math.round\<close> is a rational: at a tie it is a double itself, and
  elsewhere the double is on the same side of the tie. The weighted sum of the Score
  Aggregator is computed in double precision, rounding after every operation. The value
  \<^verbatim>\<open>NaN\<close> that \<^verbatim>\<open>0 / 0\<close> produces is \<open>None\<close> of an option type.
\<close>

subsection \<open>Numbers\<close>

text \<open>\<^verbatim>\<open>Math.round\<close>: the nearest integer, a tie going up.\<close>

definition js_round :: "rat \<Rightarrow> int" where
  "js_round x = \<lfloor>x + 1 / 2\<rfloor>"

text \<open>
  \<^verbatim>\<open>xs.reduce((sum, x) => sum + x, 0) / xs.length\<close>: for an empty array the sum is 0 and
  the quotient \<^verbatim>\<open>0 / 0\<close> is \<^verbatim>\<open>NaN\<close>.
\<close>

definition js_average :: "int list \<Rightarrow> rat option" where
  "js_average xs =
     (if length xs = 0 then None
      else Some (rat_of_int (fold (\<lambda>x sum. sum + x) xs 0) / rat_of_nat (length xs)))"

text \<open>\<^verbatim>\<open>getRandomNumber(min, max)\<close>, given the value \<open>r\<close> that \<^verbatim>\<open>Math.random()\<close> returned.\<close>

definition getRandomNumber :: "rat \<Rightarrow> int \<Rightarrow> int \<Rightarrow> int" where
  "getRandomNumber r lo hi = \<lfloor>r * rat_of_int (hi - lo + 1)\<rfloor> + lo"

subsection \<open>Double precision\<close>

text \<open>
  Where the source multiplies, adds or divides numbers that are not integers, the result is
  the double nearest to the exact one, a tie going to the even mantissa. \<open>binade x\<close> is the
  exponent of a positive \<open>x\<close>, the \<open>e\<close> with \<open>2 powi e \<le> x < 2 powi (e + 1)\<close>; a double has a
  mantissa of 53 bits. The exponent is not bounded: no value of the engine is near the
  limits of the format.
\<close>

definition binade :: "rat \<Rightarrow> int" where
  "binade x = (if 1 \<le> x then bitlen \<lfloor>x\<rfloor> - 1 else - bitlen (\<lceil>1 / x\<rceil> - 1))"

definition round_half_even :: "rat \<Rightarrow> int" where
  "round_half_even y =
     (let f = \<lfloor>y\<rfloor>; d = y - rat_of_int f
      in if d < 1 / 2 then f else if 1 / 2 < d then f + 1 else if even f then f else f + 1)"

definition to_double :: "rat \<Rightarrow> rat" where
  "to_double x =
     (if x = 0 then 0
      else let u = 2 powi (binade \<bar>x\<bar> - 52)
           in sgn x * (rat_of_int (round_half_even (\<bar>x\<bar> / u)) * u))"

definition double_add :: "rat \<Rightarrow> rat \<Rightarrow> rat" where
  "double_add a b = to_double (a + b)"

definition double_mul :: "rat \<Rightarrow> rat \<Rightarrow> rat" where
  "double_mul a b = to_double (a * b)"

definition double_div :: "rat \<Rightarrow> rat \<Rightarrow> rat" where
  "double_div a b = to_double (a / b)"

text \<open>The literals \<^verbatim>\<open>0.4\<close> and \<^verbatim>\<open>0.3\<close>: the doubles nearest to the fractions.\<close>

definition double_0_4 :: rat where
  "double_0_4 = to_double (4 / 10)"

definition double_0_3 :: rat where
  "double_0_3 = to_double (3 / 10)"

text \<open>
  The average as a double: the sum of the integer scores is exact, the quotient is
  rounded.
\<close>

definition double_average :: "int list \<Rightarrow> rat option" where
  "double_average xs = map_option to_double (js_average xs)"

subsection \<open>Sensitivity findings\<close>

text \<open>
  One entry of \<^verbatim>\<open>dataTypes\<close>. The fields \<^verbatim>\<open>confidence\<close> and \<^verbatim>\<open>count\<close> of the source
  objects are written once and never read by the engine; they are left out.
\<close>

record finding =
  field :: string
  ftype :: string
  isPII :: bool
  sensitivityScore :: int

record sensitivity_analysis =
  dataTypes :: "finding list"
  piiFields :: "finding list"
  sensitivityLevel :: string
  sensitivityScore_of :: int

definition calculateSensitivityScore :: "finding list \<Rightarrow> int" where
  "calculateSensitivityScore dts =
     (if length dts = 0 then 20
      else
        let avgScore = rat_of_int (fold (\<lambda>dt sum. sum + sensitivityScore dt) dts 0)
                         / rat_of_nat (length dts);
            piiBonus = int (length (filter isPII dts)) * 5
        in min 100 (js_round (avgScore + rat_of_int piiBonus)))"

definition getSensitivityLevel :: "int \<Rightarrow> string" where
  "getSensitivityLevel score =
     (if score \<ge> 85 then ''TOP_SECRET''
      else if score \<ge> 70 then ''RESTRICTED''
      else if score \<ge> 50 then ''CONFIDENTIAL''
      else if score \<ge> 30 then ''INTERNAL''
      else ''PUBLIC'')"

subsection \<open>The analysed file\<close>

text \<open>
  What the engine reads of \<^verbatim>\<open>fileAnalysis\<close>. A field that may be missing is an option;
  \<open>None\<close> for the whole argument is \<^verbatim>\<open>null\<close> or \<^verbatim>\<open>undefined\<close>. The \<^verbatim>\<open>type\<close> of a
  detected image object is \<open>None\<close> when it is not a string, where \<^verbatim>\<open>toLowerCase\<close> is
  not a function.
\<close>

datatype js_error = TypeError string

record image_object =
  obj_type :: "string option"

record doc_entity =
  entity_type :: string

record insights =
  detectedColumns :: "string list option"
  detectedObjects :: "image_object list option"
  detectedEntities :: "doc_entity list option"

record file_analysis =
  fileType :: "string option"
  file_insights :: "insights option"

text \<open>\<^verbatim>\<open>fileAnalysis.insights?.detectedColumns || []\<close> and its two siblings.\<close>

definition or_empty :: "insights option \<Rightarrow> (insights \<Rightarrow> 'a list option) \<Rightarrow> 'a list" where
  "or_empty ins sel =
     (case ins of None \<Rightarrow> []
      | Some i \<Rightarrow> (case sel i of None \<Rightarrow> [] | Some xs \<Rightarrow> xs))"

subsection \<open>Tabular signals\<close>

text \<open>
  A row of \<^verbatim>\<open>sensitivePatterns\<close>: the source text of the regular expression, the type,
  the PII flag and the score. The regular-expression engine is a parameter
  \<open>re_test\<close> (\<open>re_test p c\<close> is \<^verbatim>\<open>/p/i.test(c)\<close>), and so is the random source:
  \<open>rnd i\<close> is the value \<^verbatim>\<open>Math.random()\<close> returns for the score of column \<open>i\<close>.
\<close>

record sensitive_pattern =
  pattern :: string
  ptype :: string
  pIsPII :: bool
  pscore :: int

definition sensitivePatterns :: "sensitive_pattern list" where
  "sensitivePatterns =
    [\<lparr>pattern = ''email|e-mail|mail'', ptype = ''EMAIL'', pIsPII = True, pscore = 80\<rparr>,
     \<lparr>pattern = ''phone|tel|mobile'', ptype = ''PHONE'', pIsPII = True, pscore = 75\<rparr>,
     \<lparr>pattern = ''ssn|social.*security|tax.*id'', ptype = ''SSN'', pIsPII = True, pscore = 95\<rparr>,
     \<lparr>pattern = ''credit.*card|card.*number|cc'', ptype = ''CREDIT_CARD'', pIsPII = True, pscore = 90\<rparr>,
     \<lparr>pattern = ''address|street|zip|postal'', ptype = ''ADDRESS'', pIsPII = True, pscore = 70\<rparr>,
     \<lparr>pattern = ''name|first.*name|last.*name'', ptype = ''NAME'', pIsPII = True, pscore = 65\<rparr>,
     \<lparr>pattern = ''birth.*date|dob|age'', ptype = ''BIRTHDATE'', pIsPII = True, pscore = 75\<rparr>,
     \<lparr>pattern = ''salary|income|wage|compensation'', ptype = ''FINANCIAL'', pIsPII = True, pscore = 85\<rparr>,
     \<lparr>pattern = ''medical|health|diagnosis|treatment'', ptype = ''MEDICAL'', pIsPII = True, pscore = 95\<rparr>,
     \<lparr>pattern = ''passport|license|id.*number'', ptype = ''ID_NUMBER'', pIsPII = True, pscore = 90\<rparr>]"

text \<open>The inner \<^verbatim>\<open>forEach\<close>: the state is \<^verbatim>\<open>(maxScore, detectedType, isPII)\<close>.\<close>

definition match_step ::
  "(string \<Rightarrow> string \<Rightarrow> bool) \<Rightarrow> string \<Rightarrow> sensitive_pattern \<Rightarrow> int \<times> string \<times> bool
     \<Rightarrow> int \<times> string \<times> bool" where
  "match_step re_test column p st =
     (case st of (maxScore, detectedType, pii) \<Rightarrow>
        if re_test (pattern p) column then
          (if pscore p > maxScore then (pscore p, ptype p, pIsPII p) else st)
        else st)"

definition csv_column ::
  "(string \<Rightarrow> string \<Rightarrow> bool) \<Rightarrow> rat \<Rightarrow> string \<Rightarrow> finding" where
  "csv_column re_test r column =
     (case fold (match_step re_test column) sensitivePatterns (0, ''GENERAL'', False) of
        (maxScore, detectedType, pii) \<Rightarrow>
          \<lparr>field = column, ftype = detectedType, isPII = pii,
           sensitivityScore = (if maxScore \<noteq> 0 then maxScore else getRandomNumber r 10 30)\<rparr>)"

definition analyzeCSVSensitivity ::
  "(string \<Rightarrow> string \<Rightarrow> bool) \<Rightarrow> (nat \<Rightarrow> rat) \<Rightarrow> file_analysis \<Rightarrow> finding list" where
  "analyzeCSVSensitivity re_test rnd fa =
     (let cols = or_empty (file_insights fa) detectedColumns
      in map (\<lambda>(i, column). csv_column re_test (rnd i) column) (zip [0 ..< length cols] cols))"

subsection \<open>Image signals\<close>

text \<open>\<^verbatim>\<open>toLowerCase\<close> and \<^verbatim>\<open>toUpperCase\<close> on the ASCII letters.\<close>

definition lower_char :: "char \<Rightarrow> char" where
  "lower_char c =
     (let n = (of_char c :: nat) in if 65 \<le> n \<and> n \<le> 90 then char_of (n + 32) else c)"

definition upper_char :: "char \<Rightarrow> char" where
  "upper_char c =
     (let n = (of_char c :: nat) in if 97 \<le> n \<and> n \<le> 122 then char_of (n - 32) else c)"

definition toLowerCase :: "string \<Rightarrow> string" where
  "toLowerCase s = map lower_char s"

definition toUpperCase :: "string \<Rightarrow> string" where
  "toUpperCase s = map upper_char s"

definition image_finding :: "image_object \<Rightarrow> js_error + finding" where
  "image_finding obj =
     (case obj_type obj of
        None \<Rightarrow> Inl (TypeError ''obj.type.toLowerCase is not a function'')
      | Some t \<Rightarrow>
          let l = toLowerCase t;
              (score, pii) =
                (if l = ''person'' then (85, True)
                 else if l = ''text'' \<or> l = ''document'' then (70, True)
                 else if l = ''vehicle'' then (60, False)
                 else if l = ''building'' then (40, False)
                 else (25, False))
          in Inr \<lparr>field = ''Image_'' @ t, ftype = toUpperCase t, isPII = pii,
                  sensitivityScore = score\<rparr>)"

text \<open>A \<^verbatim>\<open>forEach\<close> whose body may throw: the first exception ends the loop.\<close>

fun forEach_push :: "('a \<Rightarrow> js_error + 'b) \<Rightarrow> 'a list \<Rightarrow> 'b list \<Rightarrow> js_error + 'b list" where
  "forEach_push f [] acc = Inr acc"
| "forEach_push f (x # xs) acc =
     (case f x of Inl e \<Rightarrow> Inl e | Inr y \<Rightarrow> forEach_push f xs (acc @ [y]))"

definition analyzeImageSensitivity :: "file_analysis \<Rightarrow> js_error + finding list" where
  "analyzeImageSensitivity fa =
     forEach_push image_finding (or_empty (file_insights fa) detectedObjects) []"

subsection \<open>Textual signals\<close>

definition doc_finding :: "doc_entity \<Rightarrow> finding" where
  "doc_finding entity =
     (let t = entity_type entity;
          (score, pii) =
            (if t = ''PERSON'' then (80, True)
             else if t = ''ORGANIZATION'' then (40, False)
             else if t = ''LOCATION'' then (60, True)
             else if t = ''DATE'' then (30, False)
             else if t = ''MONEY'' then (70, True)
             else (50, True))
      in \<lparr>field = ''Doc_'' @ t, ftype = t, isPII = pii, sensitivityScore = score\<rparr>)"

definition analyzeDocumentSensitivity :: "file_analysis \<Rightarrow> finding list" where
  "analyzeDocumentSensitivity fa =
     map doc_finding (or_empty (file_insights fa) detectedEntities)"

subsection \<open>The Sensitivity Classifier\<close>

text \<open>
  The second half of \<^verbatim>\<open>analyzeSensitivity\<close>, from the findings on. The field
  \<^verbatim>\<open>fieldBreakdown\<close> is a report that nothing reads; it is left out.
\<close>

definition sensitivity_of :: "finding list \<Rightarrow> sensitivity_analysis" where
  "sensitivity_of dts =
     \<lparr>dataTypes = dts,
      piiFields = filter isPII dts,
      sensitivityLevel = getSensitivityLevel (calculateSensitivityScore dts),
      sensitivityScore_of = calculateSensitivityScore dts\<rparr>"

definition analyzeSensitivity ::
  "(string \<Rightarrow> string \<Rightarrow> bool) \<Rightarrow> (nat \<Rightarrow> rat) \<Rightarrow> file_analysis option
     \<Rightarrow> js_error + sensitivity_analysis" where
  "analyzeSensitivity re_test rnd arg =
     (case arg of
        None \<Rightarrow> Inl (TypeError ''Cannot read properties of undefined (reading fileType)'')
      | Some fa \<Rightarrow>
          (case (if fileType fa = Some ''csv'' then Inr (analyzeCSVSensitivity re_test rnd fa)
                 else if fileType fa = Some ''image'' then analyzeImageSensitivity fa
                 else if fileType fa = Some ''document'' then Inr (analyzeDocumentSensitivity fa)
                 else Inr []) of
             Inl e \<Rightarrow> Inl e
           | Inr dts \<Rightarrow> Inr (sensitivity_of dts)))"

subsection \<open>The Compliance Assessor\<close>

datatype framework = GDPR | HIPAA | CCPA | SOX

datatype compliance_status = COMPLIANT | NEEDS_ATTENTION | NON_COMPLIANT

text \<open>
  One value of \<^verbatim>\<open>complianceScores\<close>. The \<^verbatim>\<open>requirements\<close> checklist is filled with
  random numbers and read by nothing; it is left out.
\<close>

record compliance_result =
  score :: int
  status :: compliance_status

text \<open>The keys of \<^verbatim>\<open>this.complianceFrameworks\<close>, in the order of the object literal.\<close>

definition complianceFrameworks :: "framework list" where
  "complianceFrameworks = [GDPR, HIPAA, CCPA, SOX]"

text \<open>\<^verbatim>\<open>piiFields.some(f => f.type === ...)\<close>.\<close>

definition some_type :: "finding list \<Rightarrow> string list \<Rightarrow> bool" where
  "some_type fs ts = list_ex (\<lambda>f. ftype f \<in> set ts) fs"

text \<open>The body of the \<^verbatim>\<open>forEach\<close> of \<^verbatim>\<open>assessCompliance\<close>, up to the \<^verbatim>\<open>switch\<close>.\<close>

definition adjusted_score :: "framework \<Rightarrow> sensitivity_analysis \<Rightarrow> int" where
  "adjusted_score fw sa =
     (let s0 = 85;
          s1 = (if sensitivityLevel sa = ''RESTRICTED'' then s0 - 15
                else if sensitivityLevel sa = ''CONFIDENTIAL'' then s0 - 10
                else s0);
          s2 = (if length (piiFields sa) > 5 then s1 - 10
                else if length (piiFields sa) > 2 then s1 - 5
                else s1)
      in case fw of
           GDPR \<Rightarrow> if some_type (piiFields sa) [''EMAIL'', ''NAME''] then s2 - 5 else s2
         | HIPAA \<Rightarrow> if some_type (piiFields sa) [''MEDICAL''] then s2 - 10 else s2
         | CCPA \<Rightarrow> if some_type (piiFields sa) [''FINANCIAL''] then s2 - 8 else s2
         | SOX \<Rightarrow> s2)"

definition compliance_entry :: "framework \<Rightarrow> sensitivity_analysis \<Rightarrow> compliance_result" where
  "compliance_entry fw sa =
     (let s = adjusted_score fw sa
      in \<lparr>score = max 60 (min 98 s),
          status = (if s \<ge> 85 then COMPLIANT
                    else if s \<ge> 70 then NEEDS_ATTENTION
                    else NON_COMPLIANT)\<rparr>)"

definition assessCompliance :: "sensitivity_analysis \<Rightarrow> (framework \<times> compliance_result) list" where
  "assessCompliance sa = map (\<lambda>fw. (fw, compliance_entry fw sa)) complianceFrameworks"

subsection \<open>The Technique Recommender\<close>

datatype technique =
  DIFFERENTIAL_PRIVACY | HOMOMORPHIC_ENCRYPTION | SECURE_MULTIPARTY | K_ANONYMITY
| L_DIVERSITY | T_CLOSENESS | DATA_MASKING | TOKENIZATION | FEDERATED_LEARNING

datatype priority = LOW | MEDIUM | HIGH

record recommendation =
  technique :: technique
  priority :: priority
  reason :: string

definition push :: "'a list \<Rightarrow> 'a \<Rightarrow> 'a list" where
  "push xs x = xs @ [x]"

text \<open>\<^verbatim>\<open>xs.slice(0, n)\<close>.\<close>

definition slice0 :: "nat \<Rightarrow> 'a list \<Rightarrow> 'a list" where
  "slice0 n xs = take n xs"

definition recommendPrivacyTechniques ::
  "string option \<Rightarrow> sensitivity_analysis \<Rightarrow> recommendation list" where
  "recommendPrivacyTechniques ft sa =
     (let r0 = [];
          r1 =
            (if sensitivityLevel sa = ''RESTRICTED'' \<or> sensitivityLevel sa = ''TOP_SECRET'' then
               push
                 (push r0
                    \<lparr>technique = HOMOMORPHIC_ENCRYPTION, priority = HIGH,
                     reason = ''Maximum privacy protection for highly sensitive data''\<rparr>)
                 \<lparr>technique = SECURE_MULTIPARTY, priority = HIGH,
                  reason = ''Secure computation without revealing individual data points''\<rparr>
             else if sensitivityLevel sa = ''CONFIDENTIAL'' then
               push
                 (push r0
                    \<lparr>technique = DIFFERENTIAL_PRIVACY, priority = HIGH,
                     reason = ''Strong privacy guarantees with statistical utility''\<rparr>)
                 \<lparr>technique = FEDERATED_LEARNING, priority = MEDIUM,
                  reason = ''Distributed processing without data centralization''\<rparr>
             else if sensitivityLevel sa = ''INTERNAL'' then
               push
                 (push r0
                    \<lparr>technique = K_ANONYMITY, priority = MEDIUM,
                     reason = ''Effective anonymization for internal use''\<rparr>)
                 \<lparr>technique = TOKENIZATION, priority = MEDIUM,
                  reason = ''Replace sensitive values with non-sensitive tokens''\<rparr>
             else
               push r0
                 \<lparr>technique = DATA_MASKING, priority = LOW,
                  reason = ''Basic protection for non-sensitive data''\<rparr>);
          r2 =
            (if ft = Some ''csv'' then
               (if length (piiFields sa) > 3 then
                  push r1
                    \<lparr>technique = L_DIVERSITY, priority = MEDIUM,
                     reason = ''Enhance k-anonymity for tabular PII data''\<rparr>
                else r1)
             else if ft = Some ''image'' then
               push r1
                 \<lparr>technique = FEDERATED_LEARNING, priority = HIGH,
                  reason = ''Process images without sharing raw visual data''\<rparr>
             else if ft = Some ''document'' then
               push r1
                 \<lparr>technique = TOKENIZATION, priority = HIGH,
                  reason = ''Replace document entities with privacy-safe tokens''\<rparr>
             else r1)
      in slice0 4 r2)"

subsection \<open>The Score Aggregator and the Risk Classifier\<close>

text \<open>\<^verbatim>\<open>this.privacyTechniques[t].effectivenessScore\<close>.\<close>

fun effectivenessScore :: "technique \<Rightarrow> int" where
  "effectivenessScore DIFFERENTIAL_PRIVACY = 95"
| "effectivenessScore HOMOMORPHIC_ENCRYPTION = 98"
| "effectivenessScore SECURE_MULTIPARTY = 92"
| "effectivenessScore K_ANONYMITY = 75"
| "effectivenessScore L_DIVERSITY = 80"
| "effectivenessScore T_CLOSENESS = 85"
| "effectivenessScore DATA_MASKING = 60"
| "effectivenessScore TOKENIZATION = 70"
| "effectivenessScore FEDERATED_LEARNING = 88"

text \<open>
  \<^verbatim>\<open>calculateOverallScore\<close> reads three fields of \<^verbatim>\<open>metrics\<close>. A \<^verbatim>\<open>NaN\<close> average makes
  every later sum, the quotient and \<^verbatim>\<open>Math.round\<close> of it \<^verbatim>\<open>NaN\<close>: the result is \<open>None\<close>.
  Every product, sum and quotient is rounded to a double, in the order of the source.
\<close>

definition calculateOverallScore ::
  "(framework \<times> compliance_result) list \<Rightarrow> int \<Rightarrow> recommendation list \<Rightarrow> int option" where
  "calculateOverallScore comps sens recs =
     (case (double_average (map (\<lambda>(fw, comp). score comp) comps),
            double_average (map (\<lambda>tech. effectivenessScore (technique tech)) recs)) of
        (Some complianceAvg, Some techniqueAvg) \<Rightarrow>
          (let score0 = 0; weightSum0 = 0;
               score1 = double_add score0 (double_mul complianceAvg double_0_4);
               weightSum1 = double_add weightSum0 double_0_4;
               sensitivityScore' = rat_of_int (max 0 (100 - sens));
               score2 = double_add score1 (double_mul sensitivityScore' double_0_3);
               weightSum2 = double_add weightSum1 double_0_3;
               score3 = double_add score2 (double_mul techniqueAvg double_0_3);
               weightSum3 = double_add weightSum2 double_0_3
           in Some (js_round (double_div score3 weightSum3)))
      | _ \<Rightarrow> None)"

text \<open>Every comparison with \<^verbatim>\<open>NaN\<close> is false.\<close>

definition determineRiskLevel :: "int option \<Rightarrow> string" where
  "determineRiskLevel overallScore =
     (case overallScore of
        None \<Rightarrow> ''CRITICAL''
      | Some s \<Rightarrow>
          if s \<ge> 85 then ''LOW''
          else if s \<ge> 70 then ''MEDIUM''
          else if s \<ge> 55 then ''HIGH''
          else ''CRITICAL'')"

subsection \<open>The assessment\<close>

record metrics =
  overallScore :: "int option"
  riskLevel :: string
  complianceScores :: "(framework \<times> compliance_result) list"
  sensitivityAnalysis :: sensitivity_analysis
  recommendedTechniques :: "recommendation list"

text \<open>
  What the promise of \<^verbatim>\<open>assessPrivacy\<close> resolves to: the metrics of the \<^verbatim>\<open>try\<close> block, or
  the object literal of \<^verbatim>\<open>getDefaultMetrics\<close> (overall score 75, risk level MEDIUM, no
  compliance score, no recommendation), which is fixed but for the message of the error.
  A rejected promise is \<open>Inl\<close>.
\<close>

datatype assessment = Metrics metrics | DefaultMetrics string

definition getDefaultMetrics :: "js_error \<Rightarrow> assessment" where
  "getDefaultMetrics e = (case e of TypeError msg \<Rightarrow> DefaultMetrics msg)"

text \<open>Steps 1 to 5 of the \<^verbatim>\<open>try\<close> block.\<close>

definition assess_steps ::
  "(string \<Rightarrow> string \<Rightarrow> bool) \<Rightarrow> (nat \<Rightarrow> rat) \<Rightarrow> file_analysis option \<Rightarrow> js_error + metrics" where
  "assess_steps re_test rnd arg =
     (case analyzeSensitivity re_test rnd arg of
        Inl e \<Rightarrow> Inl e
      | Inr sa \<Rightarrow>
          let comps = assessCompliance sa;
              recs = recommendPrivacyTechniques
                       (case arg of None \<Rightarrow> None | Some fa \<Rightarrow> fileType fa) sa;
              overall = calculateOverallScore comps (sensitivityScore_of sa) recs
          in Inr \<lparr>overallScore = overall,
                  riskLevel = determineRiskLevel overall,
                  complianceScores = comps,
                  sensitivityAnalysis = sa,
                  recommendedTechniques = recs\<rparr>)"

text \<open>
  Steps 6 to 8 fill report fields (\<^verbatim>\<open>privacyBreakdown\<close>, \<^verbatim>\<open>realTimeMetrics\<close>,
  \<^verbatim>\<open>explanations\<close>) and may throw; they are the parameter \<open>reports\<close>. The class defines no
  method \<^verbatim>\<open>generatePrivacyBreakdown\<close>, so in the source as it stands step 6 raises a
  \<^verbatim>\<open>TypeError\<close>: that is \<open>reports_as_written\<close>.
\<close>

definition reports_as_written :: "metrics \<Rightarrow> js_error + metrics" where
  "reports_as_written m = Inl (TypeError ''this.generatePrivacyBreakdown is not a function'')"

definition assessPrivacy ::
  "(string \<Rightarrow> string \<Rightarrow> bool) \<Rightarrow> (nat \<Rightarrow> rat) \<Rightarrow> (metrics \<Rightarrow> js_error + metrics)
     \<Rightarrow> file_analysis option \<Rightarrow> js_error + assessment" where
  "assessPrivacy re_test rnd reports arg =
     (case (case assess_steps re_test rnd arg of Inl e \<Rightarrow> Inl e | Inr m \<Rightarrow> reports m) of
        Inr m \<Rightarrow> Inr (Metrics m)
      | Inl error \<Rightarrow> Inr (getDefaultMetrics error))"

subsection \<open>The Session Aggregator\<close>

text \<open>
  \<^verbatim>\<open>calculateAggregatedMetrics(results)\<close> of the metrics panel. A result carries an
  \<^verbatim>\<open>analysis\<close>, which the batch processor leaves out of a failed file; every field of the
  analysis that the function guards is an option. The numbers are the integers the engine
  and the file processor produce, so that the sums of the source are exact.
\<close>

record analysis =
  privacyScore :: "int option"
  a_recommendedTechniques :: "recommendation list option"
  a_piiFields :: "finding list option"
  a_riskLevel :: "string option"
  a_complianceScores :: "(framework \<times> compliance_result) list option"
  a_encryptionStrength :: "int option"
  a_anonymizationLevel :: "int option"

record result =
  file_name :: string
  result_analysis :: "analysis option"

text \<open>\<^verbatim>\<open>x || d\<close> on a number that may be missing: \<^verbatim>\<open>undefined\<close>, \<^verbatim>\<open>NaN\<close> and 0 give \<open>d\<close>.\<close>

definition or_default :: "int option \<Rightarrow> int \<Rightarrow> int" where
  "or_default x d = (case x of None \<Rightarrow> d | Some v \<Rightarrow> if v = 0 then d else v)"

text \<open>\<^verbatim>\<open>Math.round(results.reduce((sum, r) => sum + (sel(r) || d), 0) / totalFiles)\<close>.\<close>

definition rounded_average :: "(analysis \<Rightarrow> int option) \<Rightarrow> int \<Rightarrow> result list \<Rightarrow> int option" where
  "rounded_average sel d results =
     map_option js_round
       (js_average
          (map (\<lambda>r. or_default (case result_analysis r of None \<Rightarrow> None | Some a \<Rightarrow> sel a) d)
             results))"

text \<open>The four variables the \<^verbatim>\<open>forEach\<close> updates. A JavaScript \<^verbatim>\<open>Set\<close> keeps first insertions in order.\<close>

record accumulators =
  allTechniques :: "technique list"
  allPIIFields :: "finding list"
  riskCounts :: "string \<rightharpoonup> nat option"
  acc_frameworks :: "framework \<rightharpoonup> int \<times> nat"

definition set_add :: "'a \<Rightarrow> 'a list \<Rightarrow> 'a list" where
  "set_add x xs = (if x \<in> set xs then xs else xs @ [x])"

text \<open>\<^verbatim>\<open>riskCounts[level]++\<close>: a key that is not there, or holds \<^verbatim>\<open>NaN\<close>, holds \<^verbatim>\<open>NaN\<close> afterwards.\<close>

definition count_risk :: "string \<Rightarrow> (string \<rightharpoonup> nat option) \<Rightarrow> (string \<rightharpoonup> nat option)" where
  "count_risk level rc =
     rc(level \<mapsto> (case rc level of Some (Some n) \<Rightarrow> Some (n + 1) | _ \<Rightarrow> None))"

definition add_compliance ::
  "framework \<times> compliance_result \<Rightarrow> (framework \<rightharpoonup> int \<times> nat) \<Rightarrow> (framework \<rightharpoonup> int \<times> nat)" where
  "add_compliance entry cf =
     (case entry of (fw, data) \<Rightarrow>
        let cf1 = (if cf fw = None then cf(fw \<mapsto> (0, 0)) else cf)
        in (case cf1 fw of
              Some (tot, cnt) \<Rightarrow> cf1(fw \<mapsto> (tot + score data, cnt + 1))
            | None \<Rightarrow> cf1))"

definition aggregate_step :: "analysis \<Rightarrow> accumulators \<Rightarrow> accumulators" where
  "aggregate_step a acc =
     \<lparr>allTechniques =
        (case a_recommendedTechniques a of
           None \<Rightarrow> allTechniques acc
         | Some recs \<Rightarrow> fold (\<lambda>tech. set_add (technique tech)) recs (allTechniques acc)),
      allPIIFields =
        (case a_piiFields a of None \<Rightarrow> allPIIFields acc | Some fs \<Rightarrow> allPIIFields acc @ fs),
      riskCounts =
        (case a_riskLevel a of
           None \<Rightarrow> riskCounts acc
         | Some level \<Rightarrow> if level = [] then riskCounts acc else count_risk level (riskCounts acc)),
      acc_frameworks =
        (case a_complianceScores a of
           None \<Rightarrow> acc_frameworks acc
         | Some entries \<Rightarrow> fold add_compliance entries (acc_frameworks acc))\<rparr>"

text \<open>The \<^verbatim>\<open>forEach\<close>: reading a field of a missing \<^verbatim>\<open>analysis\<close> throws.\<close>

fun forEach_result :: "result list \<Rightarrow> accumulators \<Rightarrow> js_error + accumulators" where
  "forEach_result [] acc = Inr acc"
| "forEach_result (r # rs) acc =
     (case result_analysis r of
        None \<Rightarrow>
          Inl (TypeError ''Cannot read properties of undefined (reading recommendedTechniques)'')
      | Some a \<Rightarrow> forEach_result rs (aggregate_step a acc))"

definition initial_accumulators :: accumulators where
  "initial_accumulators =
     \<lparr>allTechniques = [], allPIIFields = [],
      riskCounts = [''LOW'' \<mapsto> Some 0, ''MEDIUM'' \<mapsto> Some 0, ''HIGH'' \<mapsto> Some 0,
                    ''CRITICAL'' \<mapsto> Some 0],
      acc_frameworks = Map.empty\<rparr>"

record summary =
  totalFiles :: nat
  avgPrivacyScore :: "int option"
  overallRisk :: string
  totalPIIFields :: nat
  uniquePIITypes :: nat
  privacyTechniques :: "technique list"
  riskDistribution :: "string \<rightharpoonup> nat option"
  avgComplianceScores :: "framework \<rightharpoonup> int"
  encryptionStrength :: "int option"
  anonymizationLevel :: "int option"

definition overall_risk :: "int option \<Rightarrow> string" where
  "overall_risk avg =
     (case avg of
        None \<Rightarrow> ''HIGH''
      | Some s \<Rightarrow> if s \<ge> 85 then ''LOW'' else if s \<ge> 70 then ''MEDIUM'' else ''HIGH'')"

text \<open>The object the function returns, from the results and the four variables.\<close>

definition build_summary :: "result list \<Rightarrow> accumulators \<Rightarrow> summary" where
  "build_summary results acc =
     (let avg = rounded_average privacyScore 0 results
      in \<lparr>totalFiles = length results,
          avgPrivacyScore = avg,
          overallRisk = overall_risk avg,
          totalPIIFields = length (allPIIFields acc),
          uniquePIITypes = card (set (map ftype (allPIIFields acc))),
          privacyTechniques = allTechniques acc,
          riskDistribution = riskCounts acc,
          avgComplianceScores =
            (\<lambda>fw. case acc_frameworks acc fw of
                    None \<Rightarrow> None
                  | Some (tot, cnt) \<Rightarrow> Some (js_round (rat_of_int tot / rat_of_nat cnt))),
          encryptionStrength = rounded_average a_encryptionStrength 256 results,
          anonymizationLevel = rounded_average a_anonymizationLevel 85 results\<rparr>)"

definition calculateAggregatedMetrics :: "result list \<Rightarrow> js_error + summary" where
  "calculateAggregatedMetrics results =
     (case forEach_result results initial_accumulators of
        Inl e \<Rightarrow> Inl e
      | Inr acc \<Rightarrow> Inr (build_summary results acc))"

text \<open>
  The effect of the panel that calls it: \<^verbatim>\<open>if (results && results.length > 0)\<close>. The state
  \<^verbatim>\<open>metrics\<close> starts as \<^verbatim>\<open>null\<close> and is replaced only behind that test.
\<close>

definition panel_effect :: "result list option \<Rightarrow> summary option \<Rightarrow> js_error + summary option" where
  "panel_effect results metrics =
     (case results of
        None \<Rightarrow> Inr metrics
      | Some rs \<Rightarrow>
          if length rs > 0 then
            (case calculateAggregatedMetrics rs of Inl e \<Rightarrow> Inl e | Inr s \<Rightarrow> Inr (Some s))
          else Inr metrics)"

subsection \<open>The specification's formulas\<close>

text \<open>
  The definitions of this subsection follow the words of the specification; the theorems
  compare them with the functions above.
\<close>

definition mean_findingScores :: "finding list \<Rightarrow> rat" where
  "mean_findingScores fs =
     rat_of_int (sum_list (map sensitivityScore fs)) / rat_of_nat (length fs)"

definition countPII :: "finding list \<Rightarrow> nat" where
  "countPII fs = length (filter isPII fs)"

definition clamp :: "'a::linorder \<Rightarrow> 'a \<Rightarrow> 'a \<Rightarrow> 'a" where
  "clamp x lo hi = max lo (min hi x)"

text \<open>Section 4.1: how many signals the classifier is given for the artifact's kind.\<close>

definition extracted_signals :: "file_analysis \<Rightarrow> nat" where
  "extracted_signals fa =
     (if fileType fa = Some ''csv'' then length (or_empty (file_insights fa) detectedColumns)
      else if fileType fa = Some ''image'' then
        length (or_empty (file_insights fa) detectedObjects)
      else if fileType fa = Some ''document'' then
        length (or_empty (file_insights fa) detectedEntities)
      else 0)"

text \<open>Section 4.2: the three subtractions from the base score 85.\<close>

definition level_penalty :: "string \<Rightarrow> int" where
  "level_penalty lvl =
     (if lvl = ''RESTRICTED'' \<or> lvl = ''TOP_SECRET'' then 15
      else if lvl = ''CONFIDENTIAL'' then 10 else 0)"

definition pii_penalty :: "nat \<Rightarrow> int" where
  "pii_penalty n = (if n > 5 then 10 else if n > 2 then 5 else 0)"

definition framework_penalty :: "framework \<Rightarrow> finding list \<Rightarrow> int" where
  "framework_penalty fw fs =
     (case fw of
        GDPR \<Rightarrow> if list_ex (\<lambda>f. ftype f = ''EMAIL'' \<or> ftype f = ''NAME'') fs then 5 else 0
      | HIPAA \<Rightarrow> if list_ex (\<lambda>f. ftype f = ''MEDICAL'') fs then 10 else 0
      | CCPA \<Rightarrow> if list_ex (\<lambda>f. ftype f = ''FINANCIAL'') fs then 8 else 0
      | SOX \<Rightarrow> 0)"

text \<open>The framework score as the specification words it: the penalty looks at any finding.\<close>

definition stated_compliance_score :: "framework \<Rightarrow> sensitivity_analysis \<Rightarrow> int" where
  "stated_compliance_score fw sa =
     clamp (85 - level_penalty (sensitivityLevel sa) - pii_penalty (countPII (dataTypes sa))
              - framework_penalty fw (dataTypes sa)) 60 98"

text \<open>The same with the framework penalty looking at the PII findings only.\<close>

definition pii_compliance_score :: "framework \<Rightarrow> sensitivity_analysis \<Rightarrow> int" where
  "pii_compliance_score fw sa =
     clamp (85 - level_penalty (sensitivityLevel sa) - pii_penalty (countPII (dataTypes sa))
              - framework_penalty fw (filter isPII (dataTypes sa))) 60 98"

text \<open>Section 4.3: the two passes of the recommender.\<close>

definition rec_of :: "technique \<Rightarrow> priority \<Rightarrow> string \<Rightarrow> recommendation" where
  "rec_of t p r = \<lparr>technique = t, priority = p, reason = r\<rparr>"

definition tier_pass :: "string \<Rightarrow> recommendation list" where
  "tier_pass lvl =
     (if lvl = ''TOP_SECRET'' \<or> lvl = ''RESTRICTED'' then
        [rec_of HOMOMORPHIC_ENCRYPTION HIGH
           ''Maximum privacy protection for highly sensitive data'',
         rec_of SECURE_MULTIPARTY HIGH
           ''Secure computation without revealing individual data points'']
      else if lvl = ''CONFIDENTIAL'' then
        [rec_of DIFFERENTIAL_PRIVACY HIGH ''Strong privacy guarantees with statistical utility'',
         rec_of FEDERATED_LEARNING MEDIUM ''Distributed processing without data centralization'']
      else if lvl = ''INTERNAL'' then
        [rec_of K_ANONYMITY MEDIUM ''Effective anonymization for internal use'',
         rec_of TOKENIZATION MEDIUM ''Replace sensitive values with non-sensitive tokens'']
      else
        [rec_of DATA_MASKING LOW ''Basic protection for non-sensitive data''])"

definition kind_pass :: "string option \<Rightarrow> nat \<Rightarrow> recommendation list" where
  "kind_pass kind pii_count =
     (if kind = Some ''csv'' \<and> pii_count > 3 then
        [rec_of L_DIVERSITY MEDIUM ''Enhance k-anonymity for tabular PII data'']
      else if kind = Some ''image'' then
        [rec_of FEDERATED_LEARNING HIGH ''Process images without sharing raw visual data'']
      else if kind = Some ''document'' then
        [rec_of TOKENIZATION HIGH ''Replace document entities with privacy-safe tokens'']
      else [])"

text \<open>
  Section 4.4: the overall score, the mean over no recommendation being 0, first in exact
  arithmetic as the specification writes it, then with the same three products and two
  sums rounded to doubles from left to right.
\<close>

definition mean_compliance :: "(framework \<times> compliance_result) list \<Rightarrow> rat" where
  "mean_compliance comps =
     rat_of_int (sum_list (map (\<lambda>(fw, comp). score comp) comps)) / rat_of_nat (length comps)"

definition mean_effectiveness :: "recommendation list \<Rightarrow> rat" where
  "mean_effectiveness recs =
     (if recs = [] then 0
      else rat_of_int (sum_list (map (\<lambda>r. effectivenessScore (technique r)) recs))
             / rat_of_nat (length recs))"

definition exact_overall ::
  "(framework \<times> compliance_result) list \<Rightarrow> int \<Rightarrow> recommendation list \<Rightarrow> rat" where
  "exact_overall comps sens recs =
     4 / 10 * mean_compliance comps + 3 / 10 * rat_of_int (100 - sens)
       + 3 / 10 * mean_effectiveness recs"

definition stated_overall ::
  "(framework \<times> compliance_result) list \<Rightarrow> int \<Rightarrow> recommendation list \<Rightarrow> int" where
  "stated_overall comps sens recs = js_round (exact_overall comps sens recs)"

definition weighted_double :: "rat \<Rightarrow> rat \<Rightarrow> rat \<Rightarrow> rat" where
  "weighted_double mc b mt =
     double_add
       (double_add (double_mul (to_double mc) double_0_4)
          (double_mul b double_0_3))
       (double_mul (to_double mt) double_0_3)"

definition double_overall ::
  "(framework \<times> compliance_result) list \<Rightarrow> int \<Rightarrow> recommendation list \<Rightarrow> int" where
  "double_overall comps sens recs =
     js_round
       (weighted_double (mean_compliance comps) (rat_of_int (100 - sens))
          (mean_effectiveness recs))"

text \<open>How far a value is from the nearest tie of \<^verbatim>\<open>Math.round\<close>, a value \<open>k + 1 / 2\<close>.\<close>

definition tie_distance :: "rat \<Rightarrow> rat" where
  "tie_distance x = min (frac (x + 1 / 2)) (1 - frac (x + 1 / 2))"

text \<open>
  Section 3: the DashboardSummary. The techniques are a set; the array of the source lists
  them in the order of first appearance.
\<close>

definition dashboard_summary ::
  "summary \<Rightarrow> nat \<times> int option \<times> string \<times> technique set \<times> (string \<rightharpoonup> nat option)
     \<times> (framework \<rightharpoonup> int) \<times> nat \<times> nat \<times> int option \<times> int option" where
  "dashboard_summary s =
     (totalFiles s, avgPrivacyScore s, overallRisk s, set (privacyTechniques s),
      riskDistribution s, avgComplianceScores s, totalPIIFields s, uniquePIITypes s,
      encryptionStrength s, anonymizationLevel s)"

subsection \<open>The loop of the aggregator, variable by variable\<close>

definition analyses_of :: "result list \<Rightarrow> analysis list" where
  "analyses_of rs = map (\<lambda>r. the (result_analysis r)) rs"

definition missing_analysis :: js_error where
  "missing_analysis =
     TypeError ''Cannot read properties of undefined (reading recommendedTechniques)''"

definition techniques_of :: "analysis \<Rightarrow> technique set" where
  "techniques_of a =
     (case a_recommendedTechniques a of None \<Rightarrow> {} | Some recs \<Rightarrow> technique ` set recs)"

definition pii_of :: "analysis \<Rightarrow> finding list" where
  "pii_of a = (case a_piiFields a of None \<Rightarrow> [] | Some fs \<Rightarrow> fs)"

definition risk_step :: "analysis \<Rightarrow> (string \<rightharpoonup> nat option) \<Rightarrow> (string \<rightharpoonup> nat option)" where
  "risk_step a rc =
     (case a_riskLevel a of
        None \<Rightarrow> rc
      | Some level \<Rightarrow> if level = [] then rc else count_risk level rc)"

definition entries_of :: "analysis \<Rightarrow> (framework \<times> compliance_result) list" where
  "entries_of a = (case a_complianceScores a of None \<Rightarrow> [] | Some es \<Rightarrow> es)"

subsection \<open>Concrete inputs\<close>

text \<open>The findings of a document with an organisation and two dates.\<close>

definition three_findings :: "finding list" where
  "three_findings =
     [\<lparr>field = ''Doc_ORGANIZATION'', ftype = ''ORGANIZATION'', isPII = False,
       sensitivityScore = 40\<rparr>,
      \<lparr>field = ''Doc_DATE'', ftype = ''DATE'', isPII = False, sensitivityScore = 30\<rparr>,
      \<lparr>field = ''Doc_DATE'', ftype = ''DATE'', isPII = False, sensitivityScore = 30\<rparr>]"

text \<open>The finding of an image whose one detected object has the type \<^verbatim>\<open>email\<close>.\<close>

definition email_object :: image_object where
  "email_object = \<lparr>obj_type = Some ''email''\<rparr>"

definition email_object_findings :: "finding list" where
  "email_object_findings =
     [\<lparr>field = ''Image_email'', ftype = ''EMAIL'', isPII = False, sensitivityScore = 25\<rparr>]"

text \<open>The findings of the columns \<^verbatim>\<open>ssn\<close>, \<^verbatim>\<open>email\<close> and \<^verbatim>\<open>notes\<close>, the last drawing 20.\<close>

definition scenario_findings :: "finding list" where
  "scenario_findings =
     [\<lparr>field = ''ssn'', ftype = ''SSN'', isPII = True, sensitivityScore = 95\<rparr>,
      \<lparr>field = ''email'', ftype = ''EMAIL'', isPII = True, sensitivityScore = 80\<rparr>,
      \<lparr>field = ''notes'', ftype = ''GENERAL'', isPII = False, sensitivityScore = 20\<rparr>]"

text \<open>The findings of a document with one person.\<close>

definition person_findings :: "finding list" where
  "person_findings =
     [\<lparr>field = ''Doc_PERSON'', ftype = ''PERSON'', isPII = True, sensitivityScore = 80\<rparr>]"

text \<open>A regular-expression engine that matches nothing, and a random source that returns 0.\<close>

definition no_match :: "string \<Rightarrow> string \<Rightarrow> bool" where
  "no_match p c = False"

definition zero_random :: "nat \<Rightarrow> rat" where
  "zero_random i = 0"

text \<open>A tabular file with no column, and an analysis with no \<^verbatim>\<open>fileType\<close>.\<close>

definition empty_csv :: file_analysis where
  "empty_csv =
     \<lparr>fileType = Some ''csv'',
      file_insights =
        Some \<lparr>detectedColumns = Some [], detectedObjects = None, detectedEntities = None\<rparr>\<rparr>"


text \<open>A document with no entity.\<close>

definition empty_document :: file_analysis where
  "empty_document =
     \<lparr>fileType = Some ''document'',
      file_insights =
        Some \<lparr>detectedColumns = None, detectedObjects = None, detectedEntities = Some []\<rparr>\<rparr>"

text \<open>Four compliance scores of 91, and the recommendations of two techniques.\<close>

definition four_91 :: "(framework \<times> compliance_result) list" where
  "four_91 =
     [(GDPR, \<lparr>score = 91, status = COMPLIANT\<rparr>), (HIPAA, \<lparr>score = 91, status = COMPLIANT\<rparr>),
      (CCPA, \<lparr>score = 91, status = COMPLIANT\<rparr>), (SOX, \<lparr>score = 91, status = COMPLIANT\<rparr>)]"

definition two_techniques :: "recommendation list" where
  "two_techniques =
     [\<lparr>technique = SECURE_MULTIPARTY, priority = HIGH,
       reason = ''Secure computation without revealing individual data points''\<rparr>,
      \<lparr>technique = TOKENIZATION, priority = MEDIUM,
       reason = ''Replace sensitive values with non-sensitive tokens''\<rparr>]"

text \<open>What steps 1 to 5 compute for the tabular file with no column.\<close>

definition empty_csv_metrics :: metrics where
  "empty_csv_metrics =
     \<lparr>overallScore = Some 76, riskLevel = ''MEDIUM'',
      complianceScores =
        [(GDPR, \<lparr>score = 85, status = COMPLIANT\<rparr>), (HIPAA, \<lparr>score = 85, status = COMPLIANT\<rparr>),
         (CCPA, \<lparr>score = 85, status = COMPLIANT\<rparr>), (SOX, \<lparr>score = 85, status = COMPLIANT\<rparr>)],
      sensitivityAnalysis =
        \<lparr>dataTypes = [], piiFields = [], sensitivityLevel = ''PUBLIC'',
         sensitivityScore_of = 20\<rparr>,
      recommendedTechniques =
        [\<lparr>technique = DATA_MASKING, priority = LOW,
          reason = ''Basic protection for non-sensitive data''\<rparr>]\<rparr>"

text \<open>Two results of a batch: the file with no column and the file of the scenario.\<close>

definition result_a :: result where
  "result_a =
     \<lparr>file_name = ''a.csv'',
      result_analysis =
        Some \<lparr>privacyScore = Some 76,
              a_recommendedTechniques = Some (recommendedTechniques empty_csv_metrics),
              a_piiFields = Some [],
              a_riskLevel = Some ''MEDIUM'',
              a_complianceScores = Some (complianceScores empty_csv_metrics),
              a_encryptionStrength = Some 300,
              a_anonymizationLevel = Some 90\<rparr>\<rparr>"

definition result_b :: result where
  "result_b =
     \<lparr>file_name = ''b.csv'',
      result_analysis =
        Some \<lparr>privacyScore = Some 64,
              a_recommendedTechniques =
                Some (recommendPrivacyTechniques (Some ''csv'') (sensitivity_of scenario_findings)),
              a_piiFields = Some (piiFields (sensitivity_of scenario_findings)),
              a_riskLevel = Some ''HIGH'',
              a_complianceScores = Some (assessCompliance (sensitivity_of scenario_findings)),
              a_encryptionStrength = Some 400,
              a_anonymizationLevel = Some 81\<rparr>\<rparr>"

section \<open>Properties\<close>

subsection \<open>Sums and rounding\<close>

lemma fold_add_sum_list: "fold (\<lambda>x sum. sum + f x) xs (a::int) = a + sum_list (map f xs)"
  by (induction xs arbitrary: a) simp_all

lemma js_round_nonneg: "0 \<le> x \<Longrightarrow> 0 \<le> js_round x"
  by (simp add: js_round_def)

lemma mean_nonneg:
  assumes "\<forall>f\<in>set fs. 0 \<le> sensitivityScore f"
  shows "0 \<le> mean_findingScores fs"
proof -
  have "0 \<le> sum_list (map sensitivityScore fs)"
    using assms by (intro sum_list_nonneg) auto
  then show ?thesis by (simp add: mean_findingScores_def)
qed

subsection \<open>Double precision\<close>

lemma powi_nat: "0 \<le> k \<Longrightarrow> (2::rat) powi k = 2 ^ nat k"
  by (simp add: power_int_def)

lemma powi_neg: "0 \<le> k \<Longrightarrow> (2::rat) powi (- k) = 1 / 2 ^ nat k"
  by (simp add: power_int_def field_simps)

lemma binade_ge1:
  assumes "1 \<le> x"
  shows "2 powi binade x \<le> x \<and> x < 2 powi (binade x + 1)"
proof -
  let ?n = "\<lfloor>x\<rfloor>"
  define P :: int where "P = 2 ^ nat (bitlen ?n - 1)"
  define Q :: int where "Q = 2 ^ nat (bitlen ?n)"
  have n: "0 < ?n" using assms by linarith
  have b1: "1 \<le> bitlen ?n"
    using n bitlen_eq_zero_iff[of ?n] bitlen_nonneg[of ?n] by linarith
  from bitlen_bounds[OF n] have lo: "P \<le> ?n" and hi: "?n < Q"
    by (auto simp: P_def Q_def)
  have "rat_of_int P \<le> rat_of_int ?n" using lo by (simp only: of_int_le_iff)
  also have "\<dots> \<le> x" by (rule of_int_floor_le)
  finally have A: "rat_of_int P \<le> x" .
  have "?n + 1 \<le> Q" using hi by simp
  then have "rat_of_int (?n + 1) \<le> rat_of_int Q" by (simp only: of_int_le_iff)
  moreover have "x < rat_of_int (?n + 1)" by linarith
  ultimately have B: "x < rat_of_int Q" by linarith
  have "rat_of_int P = 2 powi (bitlen ?n - 1)" using b1 by (simp add: P_def powi_nat)
  moreover have "rat_of_int Q = 2 powi (bitlen ?n)" using b1 by (simp add: Q_def powi_nat)
  ultimately show ?thesis using A B assms by (simp add: binade_def)
qed

lemma binade_lt1:
  assumes "0 < x" "x < 1"
  shows "2 powi binade x \<le> x \<and> x < 2 powi (binade x + 1)"
proof -
  define y where "y = 1 / x"
  define m where "m = \<lceil>y\<rceil> - 1"
  define k where "k = bitlen m"
  define P :: int where "P = 2 ^ nat (k - 1)"
  define Q :: int where "Q = 2 ^ nat k"
  have y1: "1 < y" using assms by (simp add: y_def)
  have m: "0 < m" unfolding m_def using y1 by linarith
  have k1: "1 \<le> k"
    unfolding k_def using m bitlen_eq_zero_iff[of m] bitlen_nonneg[of m] by linarith
  from bitlen_bounds[OF m] have lo: "P \<le> m" and hi: "m < Q"
    by (auto simp: P_def Q_def k_def)
  have "m + 1 \<le> Q" using hi by simp
  then have "rat_of_int (m + 1) \<le> rat_of_int Q" by (simp only: of_int_le_iff)
  moreover have "y \<le> rat_of_int (m + 1)" unfolding m_def by simp
  ultimately have yQ: "y \<le> rat_of_int Q" by linarith
  have "rat_of_int P \<le> rat_of_int m" using lo by (simp only: of_int_le_iff)
  moreover have "rat_of_int m < y" unfolding m_def by linarith
  ultimately have Py: "rat_of_int P < y" by linarith
  have Ppos: "0 < rat_of_int P" and Qpos: "0 < rat_of_int Q" by (simp_all add: P_def Q_def)
  have A: "1 / rat_of_int Q \<le> x"
    using yQ assms(1) Qpos by (simp add: y_def field_simps)
  have B: "x < 1 / rat_of_int P"
    using Py assms(1) Ppos by (simp add: y_def field_simps)
  have e: "binade x = - k" using assms by (simp add: binade_def k_def m_def y_def)
  have "2 powi (- k) = 1 / rat_of_int Q" using k1 powi_neg[of k] by (simp add: Q_def)
  moreover have "2 powi (- k + 1) = 1 / rat_of_int P"
    using powi_neg[of "k - 1"] k1 by (simp add: P_def)
  ultimately show ?thesis using A B e by simp
qed

lemma binade_bounds:
  "0 < x \<Longrightarrow> 2 powi binade x \<le> x \<and> x < 2 powi (binade x + 1)"
  using binade_ge1[of x] binade_lt1[of x] by (cases "1 \<le> x") auto

lemma binade_unique:
  assumes "0 < x" "2 powi e \<le> x" "x < 2 powi (e + 1)"
  shows "binade x = e"
proof (rule ccontr)
  assume ne: "binade x \<noteq> e"
  from binade_bounds[OF assms(1)]
  have lo: "2 powi binade x \<le> x" and hi: "x < 2 powi (binade x + 1)" by auto
  show False
  proof (cases "binade x < e")
    case True
    then have "binade x + 1 \<le> e" by simp
    then have "(2::rat) powi (binade x + 1) \<le> 2 powi e"
      by (intro power_int_increasing) simp_all
    with hi assms(2) show False by linarith
  next
    case False
    with ne have "e + 1 \<le> binade x" by simp
    then have "(2::rat) powi (e + 1) \<le> 2 powi binade x"
      by (intro power_int_increasing) simp_all
    with lo assms(3) show False by linarith
  qed
qed

lemma rhe_of_int: "round_half_even (rat_of_int m) = m"
  by (simp add: round_half_even_def)

lemma rhe_error_aux:
  assumes "rat_of_int f \<le> y" "y < rat_of_int f + 1"
  shows "\<bar>rat_of_int (if y - rat_of_int f < 1 / 2 then f
                       else if 1 / 2 < y - rat_of_int f then f + 1
                       else if even f then f else f + 1) - y\<bar> \<le> 1 / 2"
  using assms by (auto simp: abs_if)

lemma rhe_error: "\<bar>rat_of_int (round_half_even y) - y\<bar> \<le> 1 / 2"
proof -
  have "rat_of_int \<lfloor>y\<rfloor> \<le> y" "y < rat_of_int \<lfloor>y\<rfloor> + 1"
    by linarith+
  from rhe_error_aux[OF this] show ?thesis by (simp add: round_half_even_def Let_def)
qed

lemma rhe_mono_bounds:
  assumes "rat_of_int a \<le> y" "y \<le> rat_of_int b"
  shows "a \<le> round_half_even y \<and> round_half_even y \<le> b"
proof -
  have f: "a \<le> \<lfloor>y\<rfloor>" using assms(1) by (simp add: le_floor_iff)
  have g: "\<lfloor>y\<rfloor> \<le> b" using assms(2) by (simp add: floor_le_iff)
  have "\<lfloor>y\<rfloor> = b \<Longrightarrow> y = rat_of_int b"
    using assms(2) of_int_floor_le[of y] by linarith
  then have "\<lfloor>y\<rfloor> = b \<Longrightarrow> round_half_even y = b"
    using rhe_of_int[of b] by simp
  moreover have "\<lfloor>y\<rfloor> < b \<Longrightarrow> round_half_even y \<le> b"
    by (auto simp: round_half_even_def Let_def)
  moreover have "\<lfloor>y\<rfloor> \<le> round_half_even y"
    by (auto simp: round_half_even_def Let_def)
  ultimately show ?thesis using f g by (cases "\<lfloor>y\<rfloor> = b") auto
qed

lemma ulp_times: "(2::rat) powi (e - 52) * 2 ^ 52 = 2 powi e"
proof -
  have "(2::rat) powi (e - 52 + 52) = 2 powi (e - 52) * 2 powi 52"
    by (rule power_int_add) simp
  then show ?thesis by simp
qed

lemma ulp_pos: "0 < (2::rat) powi k"
  by simp

lemma to_double_pos:
  "0 < x \<Longrightarrow>
     to_double x
       = rat_of_int (round_half_even (x / 2 powi (binade x - 52))) * 2 powi (binade x - 52)"
  by (simp add: to_double_def Let_def)

lemma to_double_minus: "to_double (- x) = - to_double x"
  by (simp add: to_double_def Let_def sgn_minus)

lemma mantissa_bounds:
  assumes "0 < x"
  shows "2 ^ 52 \<le> x / 2 powi (binade x - 52) \<and> x / 2 powi (binade x - 52) < 2 ^ 53"
proof -
  let ?u = "(2::rat) powi (binade x - 52)"
  from binade_bounds[OF assms]
  have lo: "2 powi binade x \<le> x" and hi: "x < 2 powi (binade x + 1)" by auto
  have a: "?u * 2 ^ 52 = 2 powi binade x" by (rule ulp_times)
  have "(2::rat) powi (binade x + 1) = 2 powi binade x * 2"
    using power_int_add[of "2::rat" "binade x" 1] by simp
  then have b: "?u * 2 ^ 53 = 2 powi (binade x + 1)" using a by simp
  have u: "0 < ?u" by simp
  have "?u * 2 ^ 52 \<le> x" using a lo by simp
  then have A: "2 ^ 52 \<le> x / ?u" using u by (simp add: field_simps)
  have "x < ?u * 2 ^ 53" using b hi by simp
  then have B: "x / ?u < 2 ^ 53" using u by (simp add: field_simps)
  from A B show ?thesis ..
qed

lemma to_double_mantissa:
  assumes "0 < x"
  shows "\<exists>m. 2 ^ 52 \<le> m \<and> m \<le> 2 ^ 53
           \<and> to_double x = rat_of_int m * 2 powi (binade x - 52)"
proof -
  let ?y = "x / 2 powi (binade x - 52)"
  from mantissa_bounds[OF assms]
  have "rat_of_int (2 ^ 52) \<le> ?y" "?y \<le> rat_of_int (2 ^ 53)"
    by simp_all
  from rhe_mono_bounds[OF this] to_double_pos[OF assms] show ?thesis by blast
qed

lemma to_double_of_mantissa:
  assumes "2 ^ 52 \<le> m" "m \<le> 2 ^ 53"
  shows "to_double (rat_of_int m * 2 powi k) = rat_of_int m * 2 powi k"
proof -
  define U :: rat where "U = 2 powi k"
  define r where "r = rat_of_int m * U"
  have U: "0 < U" by (simp add: U_def)
  have mpos: "0 < rat_of_int m" using assms(1) by simp
  have rpos: "0 < r" using mpos U by (simp add: r_def)
  have lo: "rat_of_int (2 ^ 52) \<le> rat_of_int m" using assms(1) by (simp only: of_int_le_iff)
  have hi: "rat_of_int m \<le> rat_of_int (2 ^ 53)" using assms(2) by (simp only: of_int_le_iff)
  have p52: "(2::rat) powi (k + 52) = rat_of_int (2 ^ 52) * U"
    using power_int_add[of "2::rat" 52 k] by (simp add: add.commute U_def)
  have p53: "(2::rat) powi (k + 53) = rat_of_int (2 ^ 53) * U"
    using power_int_add[of "2::rat" 53 k] by (simp add: add.commute U_def)
  have p54: "(2::rat) powi (k + 54) = rat_of_int (2 ^ 54) * U"
    using power_int_add[of "2::rat" 54 k] by (simp add: add.commute U_def)
  have p1: "(2::rat) powi (k + 1) = 2 * U"
    using power_int_add[of "2::rat" 1 k] by (simp add: add.commute U_def)
  show ?thesis
  proof (cases "m = 2 ^ 53")
    case False
    with assms(2) have "m < 2 ^ 53" by simp
    then have hi': "rat_of_int m < rat_of_int (2 ^ 53)" by (simp only: of_int_less_iff)
    have "rat_of_int (2 ^ 52) * U \<le> r"
      unfolding r_def using lo U by (intro mult_right_mono) simp_all
    then have A: "2 powi (k + 52) \<le> r" by (simp only: p52)
    have "r < rat_of_int (2 ^ 53) * U"
      unfolding r_def using hi' U by (intro mult_strict_right_mono) simp_all
    then have "r < 2 powi (k + 53)" by (simp only: p53)
    moreover have "k + 52 + 1 = k + 53" by simp
    ultimately have B: "r < 2 powi (k + 52 + 1)" by (simp only:)
    have b: "binade r = k + 52" using rpos A B by (rule binade_unique)
    have "r / 2 powi (k + 52 - 52) = rat_of_int m" using U by (simp add: r_def U_def)
    then have "round_half_even (r / 2 powi (k + 52 - 52)) = m" by (simp only: rhe_of_int)
    then have "to_double r = rat_of_int m * 2 powi (k + 52 - 52)"
      using to_double_pos[OF rpos] b by simp
    then show ?thesis by (simp add: r_def U_def)
  next
    case True
    then have r: "r = 2 powi (k + 53)" by (simp only: p53 r_def)
    have A: "2 powi (k + 53) \<le> r" using r by simp
    have "rat_of_int (2 ^ 53) * U < rat_of_int (2 ^ 54) * U"
      using U by (intro mult_strict_right_mono) simp_all
    then have "r < 2 powi (k + 54)" by (simp only: p53 p54 r)
    moreover have "k + 53 + 1 = k + 54" by simp
    ultimately have B: "r < 2 powi (k + 53 + 1)" by (simp only:)
    have b: "binade r = k + 53" using rpos A B by (rule binade_unique)
    have "k + 53 - 52 = k + 1" by simp
    then have u: "(2::rat) powi (binade r - 52) = 2 * U" by (simp only: b p1)
    have "r = rat_of_int (2 ^ 52) * (2 * U)" by (simp add: r p53)
    then have "r / (2 * U) = rat_of_int (2 ^ 52)" using U by simp
    then have "round_half_even (r / (2 * U)) = 2 ^ 52" by (simp only: rhe_of_int)
    then have "to_double r = rat_of_int (2 ^ 52) * (2 * U)"
      using to_double_pos[OF rpos] by (simp only: u)
    also have "\<dots> = r" by (simp add: r p53)
    finally show ?thesis by (simp add: r_def U_def)
  qed
qed

lemma to_double_idem_pos: "0 < x \<Longrightarrow> to_double (to_double x) = to_double x"
  using to_double_mantissa[of x] to_double_of_mantissa by auto

lemma to_double_idem: "to_double (to_double x) = to_double x"
proof (cases "0 < x")
  case True
  then show ?thesis by (rule to_double_idem_pos)
next
  case False
  show ?thesis
  proof (cases "x = 0")
    case True
    then show ?thesis by (simp add: to_double_def)
  next
    case f: False
    with False have "0 < - x" by simp
    from to_double_idem_pos[OF this] show ?thesis by (simp add: to_double_minus)
  qed
qed

lemma to_double_error_pos:
  assumes "0 < x"
  shows "\<bar>to_double x - x\<bar> \<le> x / 2 ^ 53"
proof -
  let ?u = "(2::rat) powi (binade x - 52)"
  let ?m = "rat_of_int (round_half_even (x / ?u))"
  have u: "0 < ?u" by simp
  have "\<bar>?m - x / ?u\<bar> \<le> 1 / 2" by (rule rhe_error)
  then have "\<bar>?m - x / ?u\<bar> * ?u \<le> 1 / 2 * ?u"
    using u by (intro mult_right_mono) simp_all
  moreover have "\<bar>?m - x / ?u\<bar> * ?u = \<bar>?m * ?u - x\<bar>"
  proof -
    have "\<bar>?m - x / ?u\<bar> * ?u = \<bar>(?m - x / ?u) * ?u\<bar>"
      using u by (simp add: abs_mult)
    also have "(?m - x / ?u) * ?u = ?m * ?u - x" using u by (simp add: field_simps)
    finally show ?thesis .
  qed
  ultimately have e: "\<bar>?m * ?u - x\<bar> \<le> ?u / 2" by simp
  from binade_bounds[OF assms] have "2 powi binade x \<le> x" by simp
  then have "?u * 2 ^ 52 \<le> x" by (simp only: ulp_times)
  then have "?u / 2 \<le> x / 2 ^ 53" by (simp add: field_simps)
  with e show ?thesis by (simp add: to_double_pos[OF assms])
qed

lemma to_double_error: "\<bar>to_double x - x\<bar> \<le> \<bar>x\<bar> / 2 ^ 53"
proof (cases "0 < x")
  case True
  then show ?thesis using to_double_error_pos[of x] by simp
next
  case False
  show ?thesis
  proof (cases "x = 0")
    case True
    then show ?thesis by (simp add: to_double_def)
  next
    case f: False
    with False have n: "0 < - x" by simp
    have "\<bar>to_double x - x\<bar> = \<bar>to_double (- x) - (- x)\<bar>"
      by (simp add: to_double_minus)
    with to_double_error_pos[OF n] n show ?thesis by simp
  qed
qed

lemma to_double_abs_error:
  assumes "\<bar>y\<bar> \<le> B"
  shows "\<bar>to_double y - y\<bar> \<le> B / 2 ^ 53"
proof -
  have "\<bar>y\<bar> / 2 ^ 53 \<le> B / 2 ^ 53" using assms by (simp add: divide_right_mono)
  with to_double_error[of y] show ?thesis by linarith
qed

lemma product_error:
  fixes a c a0 c0 :: rat
  assumes "\<bar>a - a0\<bar> \<le> ea" "\<bar>c - c0\<bar> \<le> ec" "\<bar>a0\<bar> \<le> A" "\<bar>c\<bar> \<le> C"
  shows "\<bar>a * c - a0 * c0\<bar> \<le> ea * C + A * ec"
proof -
  have "a * c - a0 * c0 = (a - a0) * c + a0 * (c - c0)" by (simp add: algebra_simps)
  then have "\<bar>a * c - a0 * c0\<bar> \<le> \<bar>a - a0\<bar> * \<bar>c\<bar> + \<bar>a0\<bar> * \<bar>c - c0\<bar>"
    by (metis abs_mult abs_triangle_ineq)
  moreover have "\<bar>a - a0\<bar> * \<bar>c\<bar> \<le> ea * C"
    using assms(1,4) by (intro mult_mono) (auto intro: order_trans[OF abs_ge_zero])
  moreover have "\<bar>a0\<bar> * \<bar>c - c0\<bar> \<le> A * ec"
    using assms(2,3) by (intro mult_mono) (auto intro: order_trans[OF abs_ge_zero])
  ultimately show ?thesis by linarith
qed

lemma js_round_stable:
  assumes "\<bar>v - x\<bar> \<le> d" "d < tie_distance x"
  shows "js_round v = js_round x"
proof -
  define n where "n = \<lfloor>x + 1 / 2\<rfloor>"
  have f: "x + 1 / 2 = rat_of_int n + frac (x + 1 / 2)" by (simp add: n_def frac_def)
  have "d < frac (x + 1 / 2)" "d < 1 - frac (x + 1 / 2)"
    using assms(2) by (simp_all add: tie_distance_def)
  with f assms(1) have "rat_of_int n \<le> v + 1 / 2" "v + 1 / 2 < rat_of_int n + 1"
    by (simp_all add: abs_if split: if_splits)
  then have "\<lfloor>v + 1 / 2\<rfloor> = n" by (intro floor_unique) simp_all
  then show ?thesis by (simp add: js_round_def n_def)
qed

lemma weighted_double_error:
  assumes "0 \<le> mc" "mc \<le> 100" "0 \<le> b" "b \<le> 100" "0 \<le> mt" "mt \<le> 100"
  shows "\<bar>weighted_double mc b mt - (4 / 10 * mc + 3 / 10 * b + 3 / 10 * mt)\<bar>
           \<le> 1 / 2 ^ 43"
proof -
  define e :: rat where "e = 1 / 2 ^ 53"
  define a where "a = to_double mc"
  define t where "t = to_double mt"
  define c4 where "c4 = to_double (4 / 10)"
  define c3 where "c3 = to_double (3 / 10)"
  have lit: "double_0_4 = c4" "double_0_3 = c3"
    by (simp_all only: double_0_4_def double_0_3_def c4_def c3_def)
  define q1 where "q1 = a * c4"
  define q2 where "q2 = b * c3"
  define q3 where "q3 = t * c3"
  define p1 where "p1 = to_double q1"
  define p2 where "p2 = to_double q2"
  define p3 where "p3 = to_double q3"
  define s2 where "s2 = to_double (p1 + p2)"
  define s3 where "s3 = to_double (s2 + p3)"
  have e: "0 < e" "1024 * e = 1 / 2 ^ 43" "1000 * e \<le> 1" by (simp_all add: e_def)
  have err: "\<bar>y\<bar> \<le> B \<Longrightarrow> \<bar>to_double y - y\<bar> \<le> B * e" for y B
    using to_double_abs_error[of y B] by (simp add: e_def)
  have a: "\<bar>a - mc\<bar> \<le> 100 * e" unfolding a_def using assms(1,2) by (intro err) simp
  have t: "\<bar>t - mt\<bar> \<le> 100 * e" unfolding t_def using assms(5,6) by (intro err) simp
  have c4: "\<bar>c4 - 4 / 10\<bar> \<le> 1 * e" unfolding c4_def by (intro err) simp
  have c3: "\<bar>c3 - 3 / 10\<bar> \<le> 1 * e" unfolding c3_def by (intro err) simp
  have c4b: "\<bar>c4\<bar> \<le> 1" using c4 e by (simp add: abs_le_iff) 
  have c3b: "\<bar>c3\<bar> \<le> 1" using c3 e by (simp add: abs_le_iff)
  have mcb: "\<bar>mc\<bar> \<le> 100" using assms(1,2) by simp
  have mtb: "\<bar>mt\<bar> \<le> 100" using assms(5,6) by simp
  have bb: "\<bar>b\<bar> \<le> 100" using assms(3,4) by simp
  have q1: "\<bar>q1 - mc * (4 / 10)\<bar> \<le> 100 * e * 1 + 100 * (1 * e)"
    unfolding q1_def by (rule product_error[OF a c4 mcb c4b])
  have q2: "\<bar>q2 - b * (3 / 10)\<bar> \<le> 0 * 1 + 100 * (1 * e)"
    unfolding q2_def by (rule product_error[OF _ c3 bb c3b]) simp
  have q3: "\<bar>q3 - mt * (3 / 10)\<bar> \<le> 100 * e * 1 + 100 * (1 * e)"
    unfolding q3_def by (rule product_error[OF t c3 mtb c3b])
  have q1b: "\<bar>q1\<bar> \<le> 41" using q1 e assms(1,2) by (simp add: abs_le_iff)
  have q2b: "\<bar>q2\<bar> \<le> 31" using q2 e assms(3,4) by (simp add: abs_le_iff)
  have q3b: "\<bar>q3\<bar> \<le> 31" using q3 e assms(5,6) by (simp add: abs_le_iff)
  have p1: "\<bar>p1 - q1\<bar> \<le> 41 * e" unfolding p1_def by (rule err[OF q1b])
  have p2: "\<bar>p2 - q2\<bar> \<le> 31 * e" unfolding p2_def by (rule err[OF q2b])
  have p3: "\<bar>p3 - q3\<bar> \<le> 31 * e" unfolding p3_def by (rule err[OF q3b])
  have p12b: "\<bar>p1 + p2\<bar> \<le> 74" using p1 p2 q1b q2b e by (simp add: abs_le_iff)
  have s2: "\<bar>s2 - (p1 + p2)\<bar> \<le> 74 * e" unfolding s2_def by (rule err[OF p12b])
  have s2p3b: "\<bar>s2 + p3\<bar> \<le> 107" using s2 p12b p3 q3b e by (simp add: abs_le_iff)
  have s3: "\<bar>s3 - (s2 + p3)\<bar> \<le> 107 * e" unfolding s3_def by (rule err[OF s2p3b])
  have "\<bar>s3 - (4 / 10 * mc + 3 / 10 * b + 3 / 10 * mt)\<bar> \<le> 1024 * e"
    using s3 s2 p1 p2 p3 q1 q2 q3 e by (simp add: abs_le_iff)
  moreover have "weighted_double mc b mt = s3"
    by (simp only: weighted_double_def double_add_def double_mul_def s3_def s2_def p1_def
        p2_def p3_def q1_def q2_def q3_def a_def t_def lit)
  ultimately show ?thesis using e by simp
qed

subsection \<open>The Sensitivity Classifier\<close>

text \<open>The concrete findings are what the document analyser yields for such entities.\<close>

lemma document_findings:
  "map doc_finding
     [\<lparr>entity_type = ''ORGANIZATION''\<rparr>, \<lparr>entity_type = ''DATE''\<rparr>, \<lparr>entity_type = ''DATE''\<rparr>]
     = three_findings
   \<and> map doc_finding [\<lparr>entity_type = ''PERSON''\<rparr>] = person_findings"
  by code_simp

text \<open>
  Claim C1, as the specification states it: for a non-empty finding sequence the overall
  score is \<open>clamp (mean + 5 * countPII) 0 100\<close>. The code rounds before it clamps, so the
  equation fails wherever the mean is not an integer: an organisation and two dates have
  mean \<open>100 / 3\<close> and the score 33.
\<close>

theorem C1_unrounded_mean_counterexample:
  "rat_of_int (sensitivityScore_of (sensitivity_of three_findings))
     \<noteq> clamp (mean_findingScores three_findings
                + 5 * rat_of_nat (countPII three_findings)) 0 100"
  by code_simp

text \<open>
  Claim C1, amended: for every non-empty finding sequence with non-negative scores the
  overall score is \<open>clamp (round (mean + 5 * countPII)) 0 100\<close>, the rounding being
  \<^verbatim>\<open>Math.round\<close>, and the level is the threshold-table value of that score
  (at least 85 TOP_SECRET, 70 RESTRICTED, 50 CONFIDENTIAL, 30 INTERNAL, else PUBLIC).
\<close>

theorem C1_score_is_rounded_clamped_mean:
  assumes "fs \<noteq> []" and "\<forall>f\<in>set fs. 0 \<le> sensitivityScore f"
  shows "sensitivityScore_of (sensitivity_of fs)
           = clamp (js_round (mean_findingScores fs + 5 * rat_of_nat (countPII fs))) 0 100
       \<and> sensitivityLevel (sensitivity_of fs)
           = (let s = sensitivityScore_of (sensitivity_of fs)
              in if s \<ge> 85 then ''TOP_SECRET'' else if s \<ge> 70 then ''RESTRICTED''
                 else if s \<ge> 50 then ''CONFIDENTIAL'' else if s \<ge> 30 then ''INTERNAL''
                 else ''PUBLIC'')"
proof -
  let ?x = "mean_findingScores fs + 5 * rat_of_nat (countPII fs)"
  have "0 \<le> ?x" using mean_nonneg[OF assms(2)] by simp
  then have nn: "0 \<le> js_round ?x" by (rule js_round_nonneg)
  have "calculateSensitivityScore fs = min 100 (js_round ?x)"
    using assms(1)
    by (simp add: calculateSensitivityScore_def fold_add_sum_list mean_findingScores_def
        countPII_def Let_def mult.commute)
  with nn have "calculateSensitivityScore fs = clamp (js_round ?x) 0 100"
    by (simp add: clamp_def)
  then show ?thesis
    by (simp add: sensitivity_of_def getSensitivityLevel_def Let_def)
qed

theorem C1_score_is_rounded_clamped_mean_witness:
  "three_findings \<noteq> []
   \<and> sensitivityScore_of (sensitivity_of three_findings) = 33
   \<and> sensitivityLevel (sensitivity_of three_findings) = ''INTERNAL''"
proof -
  have a: "three_findings \<noteq> []" by (simp add: three_findings_def)
  have b: "\<forall>f\<in>set three_findings. 0 \<le> sensitivityScore f"
    by (simp add: three_findings_def)
  have c: "clamp (js_round (mean_findingScores three_findings
             + 5 * rat_of_nat (countPII three_findings))) 0 100 = 33"
    by code_simp
  show ?thesis
    using C1_score_is_rounded_clamped_mean[OF a b] a c by (simp add: Let_def)
qed

text \<open>
  Claim C4, as the specification states it: an artifact with no extracted signal has the
  score 20 and the level INTERNAL, never PUBLIC. The score is 20, and the threshold table
  gives 20 the level PUBLIC.
\<close>

theorem C4_empty_signals_level_counterexample:
  "map_sum id (\<lambda>sa. (sensitivityScore_of sa, sensitivityLevel sa))
     (analyzeSensitivity no_match zero_random (Some empty_csv)) = Inr (20, ''PUBLIC'')"
  by (simp add: analyzeSensitivity_def empty_csv_def analyzeCSVSensitivity_def or_empty_def
      sensitivity_of_def calculateSensitivityScore_def getSensitivityLevel_def)

text \<open>
  Claim C4, amended: for an artifact whose extracted signal sequence is empty, whatever
  its kind, the classifier raises no error and yields no finding, the score 20 and the
  level PUBLIC.
\<close>

theorem C4_empty_signals_score_20_public:
  assumes "extracted_signals fa = 0"
  shows "\<exists>sa. analyzeSensitivity re_test rnd (Some fa) = Inr sa
           \<and> sensitivityScore_of sa = 20 \<and> sensitivityLevel sa = ''PUBLIC''
           \<and> dataTypes sa = []"
proof -
  have "(if fileType fa = Some ''csv'' then Inr (analyzeCSVSensitivity re_test rnd fa)
         else if fileType fa = Some ''image'' then analyzeImageSensitivity fa
         else if fileType fa = Some ''document'' then Inr (analyzeDocumentSensitivity fa)
         else Inr []) = Inr []"
    using assms
    by (auto simp: extracted_signals_def analyzeCSVSensitivity_def analyzeImageSensitivity_def
        analyzeDocumentSensitivity_def split: if_splits)
  then show ?thesis
    by (simp add: analyzeSensitivity_def sensitivity_of_def calculateSensitivityScore_def
        getSensitivityLevel_def)
qed

theorem C4_empty_signals_score_20_public_witness:
  "extracted_signals empty_document = 0 \<and>
   map_sum id (\<lambda>sa. (sensitivityScore_of sa, sensitivityLevel sa, dataTypes sa))
     (analyzeSensitivity no_match zero_random (Some empty_document)) = Inr (20, ''PUBLIC'', [])"
proof -
  have a: "extracted_signals empty_document = 0"
    by (simp add: extracted_signals_def empty_document_def or_empty_def)
  from C4_empty_signals_score_20_public[OF a, of no_match zero_random] a
  show ?thesis by auto
qed

subsection \<open>The Compliance Assessor\<close>

lemma assessCompliance_lookup:
  "map_of (assessCompliance sa) fw = Some (compliance_entry fw sa)"
  by (cases fw) (simp_all add: assessCompliance_def complianceFrameworks_def)

lemma image_finding_email: "image_finding email_object = Inr (hd email_object_findings)"
  by code_simp

text \<open>
  Claim C2, as the specification states it, gives the GDPR penalty to any finding of type
  EMAIL or NAME. The code looks at the PII findings only: an image object of type
  \<^verbatim>\<open>email\<close> is a finding of type EMAIL that is not PII, the code's GDPR score is 85 and
  the stated formula gives 80.
\<close>

theorem C2_non_pii_email_counterexample:
  "map_option score (map_of (assessCompliance (sensitivity_of email_object_findings)) GDPR)
     = Some 85
   \<and> stated_compliance_score GDPR (sensitivity_of email_object_findings) = 80"
  by (simp add: assessCompliance_lookup, code_simp)

lemma some_type_penalty:
  "(if some_type fs [''EMAIL'', ''NAME''] then s - 5 else s) = s - framework_penalty GDPR fs"
  "(if some_type fs [''MEDICAL''] then s - 10 else s) = s - framework_penalty HIPAA fs"
  "(if some_type fs [''FINANCIAL''] then s - 8 else s) = s - framework_penalty CCPA fs"
  by (simp_all add: some_type_def framework_penalty_def)

lemma adjusted_score_formula:
  assumes "sensitivityLevel sa \<noteq> ''TOP_SECRET''"
  shows "adjusted_score fw sa
           = 85 - level_penalty (sensitivityLevel sa) - pii_penalty (length (piiFields sa))
               - framework_penalty fw (piiFields sa)"
  using assms
  by (cases fw)
     (simp_all add: adjusted_score_def Let_def some_type_penalty level_penalty_def
        pii_penalty_def,
      simp_all add: framework_penalty_def)

text \<open>
  Claim C2, amended: for every profile whose level is not TOP_SECRET, each framework's
  score is 85 minus 15 for RESTRICTED or 10 for CONFIDENTIAL, minus 10 for more than 5 PII
  findings or 5 for more than 2, minus the framework penalty taken over the PII findings
  (GDPR 5 for a type EMAIL or NAME, HIPAA 10 for MEDICAL, CCPA 8 for FINANCIAL, SOX none),
  clamped to the interval from 60 to 98.
\<close>

theorem C2_compliance_score_formula:
  assumes "sensitivityLevel (sensitivity_of fs) \<noteq> ''TOP_SECRET''"
  shows "map (\<lambda>(fw, r). (fw, score r)) (assessCompliance (sensitivity_of fs))
           = map (\<lambda>fw. (fw, pii_compliance_score fw (sensitivity_of fs)))
               [GDPR, HIPAA, CCPA, SOX]"
proof -
  have "score (compliance_entry fw (sensitivity_of fs))
          = pii_compliance_score fw (sensitivity_of fs)" for fw
    using adjusted_score_formula[OF assms, of fw]
    by (simp add: compliance_entry_def Let_def pii_compliance_score_def clamp_def
        countPII_def sensitivity_of_def)
  then show ?thesis
    by (simp add: assessCompliance_def complianceFrameworks_def)
qed

theorem C2_compliance_score_formula_witness:
  "sensitivityLevel (sensitivity_of scenario_findings) = ''RESTRICTED''
   \<and> map (\<lambda>(fw, r). (fw, score r)) (assessCompliance (sensitivity_of scenario_findings))
       = [(GDPR, 65), (HIPAA, 70), (CCPA, 70), (SOX, 70)]"
proof -
  have a: "sensitivityLevel (sensitivity_of scenario_findings) = ''RESTRICTED''"
    by code_simp
  have b: "sensitivityLevel (sensitivity_of scenario_findings) \<noteq> ''TOP_SECRET''"
    by (simp add: a)
  have c: "map (\<lambda>fw. (fw, pii_compliance_score fw (sensitivity_of scenario_findings)))
             [GDPR, HIPAA, CCPA, SOX] = [(GDPR, 65), (HIPAA, 70), (CCPA, 70), (SOX, 70)]"
    by code_simp
  show ?thesis using C2_compliance_score_formula[OF b] a c by simp
qed

text \<open>
  At the level TOP_SECRET the code subtracts nothing for the level, where RESTRICTED
  loses 15: a document with one person scores 85 under every framework.
\<close>

lemma top_secret_level_not_penalised:
  "sensitivityLevel (sensitivity_of person_findings) = ''TOP_SECRET''
   \<and> map (\<lambda>(fw, r). (fw, score r)) (assessCompliance (sensitivity_of person_findings))
       = [(GDPR, 85), (HIPAA, 85), (CCPA, 85), (SOX, 85)]"
  by code_simp

text \<open>
  Claim C5: whatever the findings and the level, the Compliance Assessor produces one
  result for each of GDPR, HIPAA, CCPA and SOX, and each result has a score from 60 to 98
  and the status the thresholds give that score: COMPLIANT exactly from 85, NEEDS_ATTENTION
  exactly from 70 to below 85, NON_COMPLIANT exactly below 70.
\<close>

theorem C5_score_range_and_status:
  "map fst (assessCompliance sa) = [GDPR, HIPAA, CCPA, SOX]
   \<and> (\<exists>r. map_of (assessCompliance sa) fw = Some r
          \<and> 60 \<le> score r \<and> score r \<le> 98
          \<and> (status r = COMPLIANT) = (85 \<le> score r)
          \<and> (status r = NEEDS_ATTENTION) = (70 \<le> score r \<and> score r < 85)
          \<and> (status r = NON_COMPLIANT) = (score r < 70))"
proof -
  let ?r = "compliance_entry fw sa"
  have "adjusted_score fw sa \<le> 85"
    by (cases fw) (simp_all add: adjusted_score_def Let_def)
  then have "60 \<le> score ?r \<and> score ?r \<le> 98
          \<and> (status ?r = COMPLIANT) = (85 \<le> score ?r)
          \<and> (status ?r = NEEDS_ATTENTION) = (70 \<le> score ?r \<and> score ?r < 85)
          \<and> (status ?r = NON_COMPLIANT) = (score ?r < 70)"
    by (auto simp: compliance_entry_def Let_def max_def min_def)
  then show ?thesis
    by (simp add: assessCompliance_lookup)
       (simp add: assessCompliance_def complianceFrameworks_def)
qed

subsection \<open>The Technique Recommender\<close>

lemma recommend_as_passes:
  "recommendPrivacyTechniques kind sa
     = take 4 (tier_pass (sensitivityLevel sa) @ kind_pass kind (length (piiFields sa)))"
  by (simp add: recommendPrivacyTechniques_def Let_def push_def slice0_def tier_pass_def
      kind_pass_def rec_of_def)

lemma tier_pass_nonempty: "tier_pass lvl \<noteq> []"
  by (simp add: tier_pass_def)

lemma recommend_nonempty: "recommendPrivacyTechniques kind sa \<noteq> []"
  by (simp add: recommend_as_passes tier_pass_nonempty)

text \<open>
  Claim C6: for every profile and artifact kind the recommender returns the first 4
  entries of the sensitivity-tier pass followed by the kind-specific pass, in that order:
  nothing is sorted by priority and nothing is removed as a duplicate. For a CONFIDENTIAL
  image the MEDIUM entry stays before the HIGH one and federated learning stays twice.
\<close>

theorem C6_first_four_in_insertion_order:
  "recommendPrivacyTechniques kind sa
     = take 4 (tier_pass (sensitivityLevel sa) @ kind_pass kind (length (piiFields sa)))
   \<and> map (\<lambda>r. (technique r, priority r))
        (recommendPrivacyTechniques (Some ''image'') (sa\<lparr>sensitivityLevel := ''CONFIDENTIAL''\<rparr>))
       = [(DIFFERENTIAL_PRIVACY, HIGH), (FEDERATED_LEARNING, MEDIUM),
          (FEDERATED_LEARNING, HIGH)]"
  by (simp add: recommendPrivacyTechniques_def Let_def push_def slice0_def tier_pass_def
      kind_pass_def rec_of_def)

subsection \<open>The Score Aggregator\<close>

lemma js_average_sum:
  "xs \<noteq> [] \<Longrightarrow> js_average xs = Some (rat_of_int (sum_list xs) / rat_of_nat (length xs))"
  using fold_add_sum_list[of "\<lambda>x. x" xs 0] by (simp add: js_average_def)

lemma js_average_defined: "xs \<noteq> [] \<Longrightarrow> js_average xs \<noteq> None"
  by (simp add: js_average_def)

lemma assessCompliance_nonempty: "assessCompliance sa \<noteq> []"
  by (simp add: assessCompliance_def complianceFrameworks_def)

lemma overall_defined:
  "comps \<noteq> [] \<Longrightarrow> recs \<noteq> [] \<Longrightarrow> calculateOverallScore comps sens recs \<noteq> None"
  by (simp add: calculateOverallScore_def double_average_def js_average_def Let_def)

lemma weight_sum_is_one:
  "double_add (double_add (double_add 0 double_0_4) double_0_3) double_0_3 = 1"
  by code_simp

lemma mean_bounds:
  assumes "xs \<noteq> []" "\<forall>x\<in>set xs. 0 \<le> x \<and> x \<le> (100::int)"
  shows "0 \<le> rat_of_int (sum_list xs) / rat_of_nat (length xs)
       \<and> rat_of_int (sum_list xs) / rat_of_nat (length xs) \<le> 100"
proof -
  have "0 \<le> sum_list xs \<and> sum_list xs \<le> 100 * int (length xs)"
    using assms(2) by (induction xs) auto
  then have "0 \<le> rat_of_int (sum_list xs)"
    and "rat_of_int (sum_list xs) \<le> rat_of_int (100 * int (length xs))"
    by (simp_all only: of_int_le_iff of_int_0_le_iff)
  moreover have "0 < rat_of_nat (length xs)" using assms(1) by simp
  ultimately show ?thesis by (simp add: field_simps)
qed

lemma effectiveness_range: "0 \<le> effectivenessScore t \<and> effectivenessScore t \<le> 100"
  by (cases t) simp_all

lemma overall_is_double_overall:
  assumes "comps \<noteq> []" "recs \<noteq> []" "sens \<le> 100"
  shows "calculateOverallScore comps sens recs = Some (double_overall comps sens recs)"
proof -
  have m: "max 0 (100 - sens) = 100 - sens" using assms(3) by simp
  have c: "double_average (map (\<lambda>(fw, comp). score comp) comps)
             = Some (to_double (mean_compliance comps))"
    using assms(1) by (simp add: double_average_def js_average_sum mean_compliance_def)
  have t: "double_average (map (\<lambda>tech. effectivenessScore (technique tech)) recs)
             = Some (to_double (mean_effectiveness recs))"
    using assms(2) by (simp add: double_average_def js_average_sum mean_effectiveness_def)
  have z: "double_add 0 (double_mul a b) = double_mul a b" for a b
    by (simp add: double_add_def double_mul_def to_double_idem)
  have d: "double_div (double_add a b) 1 = double_add a b" for a b
    by (simp add: double_div_def double_add_def to_double_idem)
  show ?thesis
    by (simp only: calculateOverallScore_def c t Let_def m z weight_sum_is_one d
        double_overall_def weighted_double_def prod.case option.case)
qed

text \<open>
  Claim C3, as the specification states it, takes the mean effectiveness of an empty
  recommendation list as 0, and rounds the exact value of the weighted sum. The code
  divides 0 by 0 on the empty list: the overall score is \<^verbatim>\<open>NaN\<close>, where the stated formula
  gives 58 for four compliance scores of 85 and the sensitivity score 20. And the code
  adds doubles: for four compliance scores of 91, the sensitivity score 4 and the
  effectiveness 92 and 70 the exact sum is the tie 89.5, which the stated formula rounds
  to 90, and the sum of the doubles is below it, which the code rounds to 89.
\<close>

theorem C3_nan_and_tie_counterexample:
  "calculateOverallScore (assessCompliance (sensitivity_of [])) 20 [] = None
   \<and> stated_overall (assessCompliance (sensitivity_of [])) 20 [] = 58
   \<and> calculateOverallScore four_91 4 two_techniques = Some 89
   \<and> stated_overall four_91 4 two_techniques = 90"
  by code_simp

text \<open>
  Claim C3, amended: for at least one compliance result, compliance scores from 0 to 100
  and a sensitivity score from 0 to 100, the overall score of a non-empty recommendation
  list is \<^verbatim>\<open>Math.round\<close> of \<open>0.4 * meanComplianceScore + 0.3 * (100 - sensitivityOverallScore)
  + 0.3 * meanTechniqueEffectiveness\<close> computed in double precision from left to right; it
  is the rounding of the exact value of that sum whenever the exact value is farther than
  \<open>1 / 2 ^ 43\<close> from every tie \<open>k + 1 / 2\<close>; and the overall score of an empty recommendation
  list is \<^verbatim>\<open>NaN\<close>.
\<close>

theorem C3_overall_score_formula:
  assumes "comps \<noteq> []" and "\<forall>c\<in>set comps. 0 \<le> score (snd c) \<and> score (snd c) \<le> 100"
    and "0 \<le> sens" and "sens \<le> 100"
  shows "(recs \<noteq> [] \<longrightarrow>
            calculateOverallScore comps sens recs = Some (double_overall comps sens recs))
       \<and> (recs \<noteq> [] \<and> 1 / 2 ^ 43 < tie_distance (exact_overall comps sens recs) \<longrightarrow>
            calculateOverallScore comps sens recs = Some (stated_overall comps sens recs))
       \<and> (recs = [] \<longrightarrow> calculateOverallScore comps sens recs = None)"
proof (intro conjI impI)
  assume "recs \<noteq> []"
  then show "calculateOverallScore comps sens recs = Some (double_overall comps sens recs)"
    using assms(1,4) by (intro overall_is_double_overall)
next
  assume a: "recs \<noteq> [] \<and> 1 / 2 ^ 43 < tie_distance (exact_overall comps sens recs)"
  have "\<forall>x\<in>set (map (\<lambda>(fw, comp). score comp) comps). 0 \<le> x \<and> x \<le> 100"
    using assms(2) by (auto simp: case_prod_beta)
  from mean_bounds[OF _ this] assms(1)
  have mc: "0 \<le> mean_compliance comps" "mean_compliance comps \<le> 100"
    by (simp_all add: mean_compliance_def)
  have "\<forall>x\<in>set (map (\<lambda>r. effectivenessScore (technique r)) recs). 0 \<le> x \<and> x \<le> 100"
    by (simp add: effectiveness_range)
  from mean_bounds[OF _ this] a
  have mt: "0 \<le> mean_effectiveness recs" "mean_effectiveness recs \<le> 100"
    by (simp_all add: mean_effectiveness_def)
  have b: "0 \<le> rat_of_int (100 - sens)" "rat_of_int (100 - sens) \<le> 100"
    using assms(3,4) by simp_all
  have "\<bar>weighted_double (mean_compliance comps) (rat_of_int (100 - sens))
            (mean_effectiveness recs) - exact_overall comps sens recs\<bar> \<le> 1 / 2 ^ 43"
    unfolding exact_overall_def by (rule weighted_double_error[OF mc b mt])
  from js_round_stable[OF this] a
  have "double_overall comps sens recs = stated_overall comps sens recs"
    by (simp add: double_overall_def stated_overall_def)
  then show "calculateOverallScore comps sens recs = Some (stated_overall comps sens recs)"
    using overall_is_double_overall[OF assms(1) _ assms(4), of recs] a by simp
next
  assume "recs = []"
  then show "calculateOverallScore comps sens recs = None"
    by (simp add: calculateOverallScore_def double_average_def js_average_def
        split: option.splits)
qed

theorem C3_overall_score_formula_witness:
  "calculateOverallScore four_91 4 two_techniques = Some 89
   \<and> calculateOverallScore (assessCompliance (sensitivity_of [])) 20
        (recommendPrivacyTechniques (Some ''csv'') (sensitivity_of [])) = Some 76
   \<and> calculateOverallScore four_91 4 [] = None"
proof -
  let ?comps = "assessCompliance (sensitivity_of [])"
  let ?recs = "recommendPrivacyTechniques (Some ''csv'') (sensitivity_of [])"
  have a: "four_91 \<noteq> []" by (simp add: four_91_def)
  have b: "\<forall>c\<in>set four_91. 0 \<le> score (snd c) \<and> score (snd c) \<le> 100"
    by (simp add: four_91_def)
  have z: "(0::int) \<le> 4" "(4::int) \<le> 100" by simp_all
  have c: "two_techniques \<noteq> []" by (simp add: two_techniques_def)
  have d: "double_overall four_91 4 two_techniques = 89" by code_simp
  have a': "?comps \<noteq> []" by (rule assessCompliance_nonempty)
  have b': "\<forall>c\<in>set ?comps. 0 \<le> score (snd c) \<and> score (snd c) \<le> 100" by code_simp
  have z': "(0::int) \<le> 20" "(20::int) \<le> 100" by simp_all
  have c': "?recs \<noteq> []" by (rule recommend_nonempty)
  have t: "1 / 2 ^ 43 < tie_distance (exact_overall ?comps 20 ?recs)" by code_simp
  have s: "stated_overall ?comps 20 ?recs = 76" by code_simp
  from C3_overall_score_formula[OF a b z, of two_techniques] c
  have "calculateOverallScore four_91 4 two_techniques
          = Some (double_overall four_91 4 two_techniques)"
    by blast
  then have r1: "calculateOverallScore four_91 4 two_techniques = Some 89"
    by (simp only: d)
  from C3_overall_score_formula[OF a' b' z', of ?recs] c' t
  have "calculateOverallScore ?comps 20 ?recs = Some (stated_overall ?comps 20 ?recs)"
    by blast
  then have r2: "calculateOverallScore ?comps 20 ?recs = Some 76" by (simp only: s)
  from C3_overall_score_formula[OF a b z, of "[]"]
  have r3: "calculateOverallScore four_91 4 [] = None" by blast
  from r1 r2 r3 show ?thesis by blast
qed

lemma steps_of_empty_csv:
  "assess_steps no_match zero_random (Some empty_csv) = Inr empty_csv_metrics"
  by code_simp

text \<open>
  Claim C10: for every profile and artifact kind the recommender returns at least one
  recommendation; a level that is none of RESTRICTED, TOP_SECRET, CONFIDENTIAL and INTERNAL
  gets data masking first; so the mean effectiveness over the recommender's list is a
  number, and every assessment that steps 1 to 5 complete has recommendations and an
  overall score that is a number.
\<close>

theorem C10_recommender_never_empty:
  "length (recommendPrivacyTechniques kind sa) \<ge> 1
   \<and> (sensitivityLevel sa \<notin> {''RESTRICTED'', ''TOP_SECRET'', ''CONFIDENTIAL'', ''INTERNAL''}
        \<longrightarrow> technique (hd (recommendPrivacyTechniques kind sa)) = DATA_MASKING)
   \<and> js_average (map (\<lambda>tech. effectivenessScore (technique tech))
                    (recommendPrivacyTechniques kind sa)) \<noteq> None
   \<and> (assess_steps re_test rnd arg = Inr m
        \<longrightarrow> recommendedTechniques m \<noteq> [] \<and> overallScore m \<noteq> None)"
proof -
  have a: "length (recommendPrivacyTechniques kind sa) \<ge> 1"
    using recommend_nonempty[of kind sa]
    by (cases "recommendPrivacyTechniques kind sa") simp_all
  have b: "sensitivityLevel sa \<notin> {''RESTRICTED'', ''TOP_SECRET'', ''CONFIDENTIAL'', ''INTERNAL''}
        \<longrightarrow> technique (hd (recommendPrivacyTechniques kind sa)) = DATA_MASKING"
    by (simp add: recommend_as_passes tier_pass_def rec_of_def)
  have c: "js_average (map (\<lambda>tech. effectivenessScore (technique tech))
                    (recommendPrivacyTechniques kind sa)) \<noteq> None"
    by (rule js_average_defined) (simp add: recommend_nonempty)
  have d: "assess_steps re_test rnd arg = Inr m
        \<longrightarrow> recommendedTechniques m \<noteq> [] \<and> overallScore m \<noteq> None"
    using overall_defined[OF assessCompliance_nonempty recommend_nonempty]
    by (auto simp: assess_steps_def Let_def recommend_nonempty
        split: sum.splits option.splits)
  from a b c d show ?thesis by blast
qed

theorem C10_recommender_never_empty_witness:
  "recommendedTechniques empty_csv_metrics \<noteq> []
   \<and> overallScore empty_csv_metrics \<noteq> None
   \<and> technique (hd (recommendPrivacyTechniques (Some ''csv'') (sensitivity_of [])))
       = DATA_MASKING"
proof -
  have a: "sensitivityLevel (sensitivity_of [])
             \<notin> {''RESTRICTED'', ''TOP_SECRET'', ''CONFIDENTIAL'', ''INTERNAL''}"
    by code_simp
  show ?thesis
    using C10_recommender_never_empty[of "Some ''csv''" "sensitivity_of []" no_match
        zero_random "Some empty_csv" empty_csv_metrics] a steps_of_empty_csv
    by blast
qed

subsection \<open>The Session Aggregator\<close>

lemma forEach_result_fold:
  "forEach_result rs acc =
     (if list_ex (\<lambda>r. result_analysis r = None) rs then Inl missing_analysis
      else Inr (fold aggregate_step (analyses_of rs) acc))"
  by (induction rs arbitrary: acc)
     (auto simp: analyses_of_def missing_analysis_def split: option.splits)

lemma set_fold_set_add:
  "set (fold (\<lambda>tech. set_add (f tech)) recs xs) = set xs \<union> f ` set recs"
  by (induction recs arbitrary: xs) (auto simp: set_add_def)

lemma allTechniques_fold:
  "set (allTechniques (fold aggregate_step as acc))
     = set (allTechniques acc) \<union> (\<Union>a\<in>set as. techniques_of a)"
  by (induction as arbitrary: acc)
     (auto simp: aggregate_step_def techniques_of_def set_fold_set_add split: option.splits)

lemma allPIIFields_fold:
  "allPIIFields (fold aggregate_step as acc) = allPIIFields acc @ concat (map pii_of as)"
  by (induction as arbitrary: acc)
     (auto simp: aggregate_step_def pii_of_def split: option.splits)

lemma riskCounts_fold:
  "riskCounts (fold aggregate_step as acc) = fold risk_step as (riskCounts acc)"
  by (induction as arbitrary: acc)
     (auto simp: aggregate_step_def risk_step_def split: option.splits)

lemma acc_frameworks_fold:
  "acc_frameworks (fold aggregate_step as acc)
     = fold add_compliance (concat (map entries_of as)) (acc_frameworks acc)"
  by (induction as arbitrary: acc)
     (auto simp: aggregate_step_def entries_of_def split: option.splits)

lemma count_risk_commute: "count_risk k (count_risk l rc) = count_risk l (count_risk k rc)"
  by (auto simp: count_risk_def fun_eq_iff split: option.splits)

lemma risk_step_commute: "risk_step a \<circ> risk_step b = risk_step b \<circ> risk_step a"
  by (auto simp: risk_step_def fun_eq_iff count_risk_commute split: option.splits)

lemma add_compliance_commute:
  "add_compliance x \<circ> add_compliance y = add_compliance y \<circ> add_compliance x"
  by (auto simp: add_compliance_def fun_eq_iff Let_def split: option.splits prod.splits)

lemma mset_concat_map_sum:
  "mset (concat (map f xs)) = (\<Sum>x\<in>#mset xs. mset (f x))"
  by (induction xs) simp_all

lemma mset_concat_map:
  "mset xs = mset ys \<Longrightarrow> mset (concat (map f xs)) = mset (concat (map f ys))"
  by (simp add: mset_concat_map_sum)

lemma sum_list_map_perm:
  "mset xs = mset ys \<Longrightarrow> sum_list (map (f :: 'a \<Rightarrow> int) xs) = sum_list (map f ys)"
  by (metis mset_map sum_mset_sum_list)

lemma js_average_perm:
  assumes "mset xs = mset ys"
  shows "js_average (map f xs) = js_average (map f ys)"
proof -
  have "length xs = length ys" using assms by (rule mset_eq_length)
  moreover have "sum_list (map f xs) = sum_list (map f ys)"
    using assms by (rule sum_list_map_perm)
  ultimately show ?thesis
    using fold_add_sum_list[of "\<lambda>x. x" "map f xs" 0]
      fold_add_sum_list[of "\<lambda>x. x" "map f ys" 0]
    by (simp add: js_average_def)
qed

lemma rounded_average_perm:
  assumes "mset rs = mset rs'"
  shows "rounded_average sel d rs = rounded_average sel d rs'"
  unfolding rounded_average_def by (simp only: js_average_perm[OF assms])

lemma analyses_of_perm:
  "mset rs = mset rs' \<Longrightarrow> mset (analyses_of rs) = mset (analyses_of rs')"
  by (simp add: analyses_of_def)

lemma fold_risk_perm:
  "mset as = mset bs \<Longrightarrow> fold risk_step as rc = fold risk_step bs rc"
  by (rule fun_cong[OF fold_multiset_equiv]) (simp_all add: risk_step_commute)

lemma fold_compliance_perm:
  "mset es = mset fs \<Longrightarrow> fold add_compliance es cf = fold add_compliance fs cf"
  by (rule fun_cong[OF fold_multiset_equiv]) (simp_all add: add_compliance_commute)

lemma list_ex_perm: "mset rs = mset rs' \<Longrightarrow> list_ex P rs = list_ex P rs'"
  using mset_eq_setD[of rs rs'] by (simp add: list_ex_iff)

text \<open>
  Claim C7: the summary of a sequence of results and the summary of any permutation of it
  are the same DashboardSummary (number of files, average score, overall risk, set of
  techniques, risk-tier counts, per-framework average compliance, PII total, number of
  PII types, and the two averaged metrics), and the one fails exactly when the other does,
  with the same error.
\<close>

theorem C7_summary_permutation_invariant:
  assumes "mset rs = mset rs'"
  shows "map_sum id dashboard_summary (calculateAggregatedMetrics rs)
           = map_sum id dashboard_summary (calculateAggregatedMetrics rs')"
proof -
  let ?as = "analyses_of rs" and ?bs = "analyses_of rs'"
  let ?acc = "fold aggregate_step ?as initial_accumulators"
  let ?acc' = "fold aggregate_step ?bs initial_accumulators"
  have ab: "mset ?as = mset ?bs" using assms by (rule analyses_of_perm)
  have ex: "list_ex (\<lambda>r. result_analysis r = None) rs
              = list_ex (\<lambda>r. result_analysis r = None) rs'"
    using assms by (rule list_ex_perm)
  have len: "length rs = length rs'" using assms by (rule mset_eq_length)
  have tech: "set (allTechniques ?acc) = set (allTechniques ?acc')"
    using mset_eq_setD[OF ab] by (simp add: allTechniques_fold)
  have pii: "mset (allPIIFields ?acc) = mset (allPIIFields ?acc')"
    using mset_concat_map[OF ab, of pii_of] by (simp add: allPIIFields_fold)
  have pii_len: "length (allPIIFields ?acc) = length (allPIIFields ?acc')"
    using pii by (rule mset_eq_length)
  have pii_types: "set (map ftype (allPIIFields ?acc)) = set (map ftype (allPIIFields ?acc'))"
    using mset_eq_setD[OF pii] by simp
  have risk: "riskCounts ?acc = riskCounts ?acc'"
    using fold_risk_perm[OF ab] by (simp add: riskCounts_fold)
  have comp: "acc_frameworks ?acc = acc_frameworks ?acc'"
    using fold_compliance_perm[OF mset_concat_map[OF ab, of entries_of]]
    by (simp add: acc_frameworks_fold)
  have avg: "rounded_average privacyScore 0 rs = rounded_average privacyScore 0 rs'"
    using assms by (rule rounded_average_perm)
  have enc: "rounded_average a_encryptionStrength 256 rs
               = rounded_average a_encryptionStrength 256 rs'"
    using assms by (rule rounded_average_perm)
  have anon: "rounded_average a_anonymizationLevel 85 rs
                = rounded_average a_anonymizationLevel 85 rs'"
    using assms by (rule rounded_average_perm)
  show ?thesis
  proof (cases "list_ex (\<lambda>r. result_analysis r = None) rs")
    case True
    moreover from True ex have "list_ex (\<lambda>r. result_analysis r = None) rs'" by simp
    ultimately show ?thesis
      by (simp add: calculateAggregatedMetrics_def forEach_result_fold Let_def)
  next
    case False
    moreover from False ex have "\<not> list_ex (\<lambda>r. result_analysis r = None) rs'" by simp
    ultimately have
      "map_sum id dashboard_summary (calculateAggregatedMetrics rs)
         = Inr (dashboard_summary (build_summary rs ?acc))"
      "map_sum id dashboard_summary (calculateAggregatedMetrics rs')
         = Inr (dashboard_summary (build_summary rs' ?acc'))"
      by (simp_all add: calculateAggregatedMetrics_def forEach_result_fold)
    moreover have "dashboard_summary (build_summary rs ?acc)
                     = dashboard_summary (build_summary rs' ?acc')"
      unfolding dashboard_summary_def build_summary_def Let_def summary.simps
      by (simp only: len tech pii_len pii_types risk comp avg enc anon)
    ultimately show ?thesis by simp
  qed
qed

theorem C7_summary_permutation_invariant_witness:
  "map_sum id dashboard_summary (calculateAggregatedMetrics [result_a, result_b])
     = map_sum id dashboard_summary (calculateAggregatedMetrics [result_b, result_a])"
  using C7_summary_permutation_invariant[of "[result_a, result_b]" "[result_b, result_a]"]
  by simp

text \<open>The summary of the two results, and the technique array in both orders.\<close>

lemma summary_of_two_results:
  "map_sum id
     (\<lambda>s. (totalFiles s, avgPrivacyScore s, overallRisk s, totalPIIFields s, uniquePIITypes s,
           riskDistribution s ''HIGH'', riskDistribution s ''LOW'', avgComplianceScores s GDPR,
           encryptionStrength s))
     (calculateAggregatedMetrics [result_a, result_b])
   = Inr (2, Some 70, ''MEDIUM'', 2, 2, Some (Some 1), Some (Some 0), Some 75, Some 350)"
  by code_simp

lemma technique_array_in_order_of_first_appearance:
  "map_sum id privacyTechniques (calculateAggregatedMetrics [result_a, result_b])
     = Inr [DATA_MASKING, HOMOMORPHIC_ENCRYPTION, SECURE_MULTIPARTY]
   \<and> map_sum id privacyTechniques (calculateAggregatedMetrics [result_b, result_a])
     = Inr [HOMOMORPHIC_ENCRYPTION, SECURE_MULTIPARTY, DATA_MASKING]"
  by code_simp

text \<open>
  Claim C8, as the specification states it: the summary of an empty sequence fails with
  EmptyBatch. The function raises nothing there and returns a summary whose average score
  is \<^verbatim>\<open>NaN\<close>.
\<close>

theorem C8_empty_batch_counterexample:
  "\<not> isl (calculateAggregatedMetrics [])
   \<and> map_sum id avgPrivacyScore (calculateAggregatedMetrics []) = Inr None"
  by code_simp

text \<open>
  Claim C8, amended: on an empty sequence the function raises no error and returns the
  summary of 0 files, with the three averages \<^verbatim>\<open>NaN\<close>, the overall risk HIGH, no PII field
  and no technique; the panel never makes that call, since its effect leaves the metrics
  as they are when the results are missing or empty.
\<close>

theorem C8_empty_batch_returns_nan_summary:
  "map_sum id
     (\<lambda>s. (totalFiles s, avgPrivacyScore s, overallRisk s, totalPIIFields s,
           uniquePIITypes s, privacyTechniques s, encryptionStrength s,
           anonymizationLevel s))
     (calculateAggregatedMetrics [])
     = Inr (0, None, ''HIGH'', 0, 0, [], None, None)
   \<and> panel_effect (Some []) metrics = Inr metrics
   \<and> panel_effect None metrics = Inr metrics"
  by (simp add: calculateAggregatedMetrics_def build_summary_def rounded_average_def
      js_average_def overall_risk_def initial_accumulators_def panel_effect_def)

subsection \<open>The assessment\<close>




text \<open>
  With the report steps as the source has them, every assessment ends in the default
  metrics.
\<close>

lemma as_written_always_default:
  "\<exists>msg. assessPrivacy re_test rnd reports_as_written arg = Inr (DefaultMetrics msg)"
  by (auto simp: assessPrivacy_def getDefaultMetrics_def reports_as_written_def
      split: sum.splits js_error.splits)

end
